theory Spec2Isabelle
  imports Complex_Main "HOL-Library.Log_Nat"
begin

section \<open>JavaScript values used by the ingestion core\<close>

text \<open>
  A JavaScript string is a sequence of UTF-16 code units; \<open>includes\<close>, \<open>slice\<close> and
  \<open>length\<close> all count code units, so a string is modelled as a list of code units.
  \<open>str\<close> reads an ASCII literal.
\<close>

type_synonym jsstring = "nat list"

definition str :: "string \<Rightarrow> jsstring" where
  "str s = map of_char s"

text \<open>
  \<open>String.prototype.toLowerCase\<close>. The Basic Latin and Latin-1 Supplement capitals
  move by 32; five further code units have a lower case in that range: U+0130 (to
  \<open>i\<close> followed by U+0307), U+0178, U+1E9E, the Kelvin sign U+212A (to \<open>k\<close>) and the
  Angstrom sign U+212B. Every other cased letter has its lower case outside Basic Latin
  and Latin-1 and is not itself in that range; such a code unit is left as it is, which
  changes no occurrence of a keyword of this program (their letters are Basic Latin,
  Latin-1 and Arabic, and Arabic has no case).
\<close>

definition lowerUnits :: "nat \<Rightarrow> nat list" where
  "lowerUnits c =
     (if 65 \<le> c \<and> c \<le> 90 then [c + 32]
      else if 192 \<le> c \<and> c \<le> 222 \<and> c \<noteq> 215 then [c + 32]
      else if c = 304 then [105, 775]
      else if c = 376 then [255]
      else if c = 7838 then [223]
      else if c = 8490 then [107]
      else if c = 8491 then [229]
      else [c])"

definition toLowerCase :: "jsstring \<Rightarrow> jsstring" where
  "toLowerCase s = concat (map lowerUnits s)"

text \<open>\<open>String.prototype.includes\<close>: the keyword occurs as a contiguous run of code units.\<close>

fun startsWith :: "jsstring \<Rightarrow> jsstring \<Rightarrow> bool" where
  "startsWith cs [] = True"
| "startsWith [] (k # ks) = False"
| "startsWith (c # cs) (k # ks) = (c = k \<and> startsWith cs ks)"

fun includes_js :: "jsstring \<Rightarrow> jsstring \<Rightarrow> bool" where
  "includes_js [] kw = (kw = [])"
| "includes_js (c # cs) kw = (startsWith (c # cs) kw \<or> includes_js cs kw)"

text \<open>\<open>Array.prototype.some\<close> over a keyword list.\<close>

definition some :: "jsstring list \<Rightarrow> (jsstring \<Rightarrow> bool) \<Rightarrow> bool" where
  "some kws p = list_ex p kws"

section \<open>JavaScript numbers\<close>

text \<open>
  A JavaScript number is an IEEE 754 double: a finite value, an infinity or \<open>NaN\<close>. The
  finite values are kept as the reals they denote; the two zeros are one value (they
  are equal for \<open>===\<close> and for every comparison, and nothing here divides by a
  computed zero). Each arithmetic operation yields the exact result rounded to the
  nearest double, a tie going to the even significand, and an infinity on overflow.
\<close>

datatype jsnum = Fin real | PInf | NInf | NaN

text \<open>The binary exponent of a non-zero real: \<open>2 powi expo x \<le> \<bar>x\<bar> < 2 powi (expo x + 1)\<close>.\<close>

definition expo :: "real \<Rightarrow> int" where
  "expo x =
     (if 1 \<le> \<bar>x\<bar> then bitlen \<lfloor>\<bar>x\<bar>\<rfloor> - 1 else - bitlen (\<lceil>1 / \<bar>x\<bar>\<rceil> - 1))"

text \<open>The spacing of the doubles around \<open>x\<close>: 53 significant bits, and the fixed spacing
  of the subnormal range below \<open>2 powi (- 1022)\<close>.\<close>

definition ulp :: "real \<Rightarrow> real" where
  "ulp x = 2 powi (max (expo x) (- 1022) - 52)"

definition roundTiesToEven :: "real \<Rightarrow> int" where
  "roundTiesToEven q =
     (let f = \<lfloor>q\<rfloor>; r = q - of_int f
      in if r < 1 / 2 then f else if 1 / 2 < r then f + 1 else if even f then f else f + 1)"

definition overflowThreshold :: real where
  "overflowThreshold = 2 powi 1024"

definition rnd :: "real \<Rightarrow> jsnum" where
  "rnd x =
     (if x = 0 then Fin 0
      else
        (let y = of_int (roundTiesToEven (x / ulp x)) * ulp x
         in if overflowThreshold \<le> y then PInf
            else if y \<le> - overflowThreshold then NInf
            else Fin y))"

text \<open>A decimal literal of the source denotes the double nearest to it. The literals that
  are doubles themselves (the integers of the source, 0.5) are written with \<open>Fin\<close>.\<close>

definition lit :: "real \<Rightarrow> jsnum" where
  "lit r = rnd r"

fun num_add :: "jsnum \<Rightarrow> jsnum \<Rightarrow> jsnum" where
  "num_add NaN b = NaN"
| "num_add a NaN = NaN"
| "num_add PInf NInf = NaN"
| "num_add NInf PInf = NaN"
| "num_add PInf b = PInf"
| "num_add NInf b = NInf"
| "num_add a PInf = PInf"
| "num_add a NInf = NInf"
| "num_add (Fin a) (Fin b) = rnd (a + b)"

fun num_neg :: "jsnum \<Rightarrow> jsnum" where
  "num_neg NaN = NaN"
| "num_neg PInf = NInf"
| "num_neg NInf = PInf"
| "num_neg (Fin a) = Fin (- a)"

definition num_sub :: "jsnum \<Rightarrow> jsnum \<Rightarrow> jsnum" where
  "num_sub a b = num_add a (num_neg b)"

text \<open>The sign of a product or quotient with an infinity.\<close>

definition signed_inf :: "bool \<Rightarrow> jsnum" where
  "signed_inf positive = (if positive then PInf else NInf)"

fun num_mul :: "jsnum \<Rightarrow> jsnum \<Rightarrow> jsnum" where
  "num_mul NaN b = NaN"
| "num_mul a NaN = NaN"
| "num_mul PInf PInf = PInf"
| "num_mul PInf NInf = NInf"
| "num_mul NInf PInf = NInf"
| "num_mul NInf NInf = PInf"
| "num_mul PInf (Fin b) = (if b = 0 then NaN else signed_inf (0 < b))"
| "num_mul NInf (Fin b) = (if b = 0 then NaN else signed_inf (b < 0))"
| "num_mul (Fin a) PInf = (if a = 0 then NaN else signed_inf (0 < a))"
| "num_mul (Fin a) NInf = (if a = 0 then NaN else signed_inf (a < 0))"
| "num_mul (Fin a) (Fin b) = rnd (a * b)"

text \<open>Division by a finite non-zero number or by an infinity; the source divides by the
  literals 10 and 100 only. A division by zero, whose result depends on the sign of the
  zero, reads the zero as positive.\<close>

fun num_div :: "jsnum \<Rightarrow> jsnum \<Rightarrow> jsnum" where
  "num_div NaN b = NaN"
| "num_div a NaN = NaN"
| "num_div PInf PInf = NaN"
| "num_div PInf NInf = NaN"
| "num_div NInf PInf = NaN"
| "num_div NInf NInf = NaN"
| "num_div PInf (Fin b) = signed_inf (0 \<le> b)"
| "num_div NInf (Fin b) = signed_inf (b < 0)"
| "num_div (Fin a) PInf = Fin 0"
| "num_div (Fin a) NInf = Fin 0"
| "num_div (Fin a) (Fin b) =
     (if b = 0 then (if a = 0 then NaN else signed_inf (0 < a)) else rnd (a / b))"

text \<open>\<open>a <= b\<close> and \<open>a < b\<close>: false as soon as an operand is \<open>NaN\<close>.\<close>

fun num_le :: "jsnum \<Rightarrow> jsnum \<Rightarrow> bool" where
  "num_le NaN b = False"
| "num_le a NaN = False"
| "num_le NInf b = True"
| "num_le a PInf = True"
| "num_le PInf b = False"
| "num_le a NInf = False"
| "num_le (Fin a) (Fin b) = (a \<le> b)"

fun num_lt :: "jsnum \<Rightarrow> jsnum \<Rightarrow> bool" where
  "num_lt NaN b = False"
| "num_lt a NaN = False"
| "num_lt PInf b = False"
| "num_lt a NInf = False"
| "num_lt NInf b = True"
| "num_lt a PInf = True"
| "num_lt (Fin a) (Fin b) = (a < b)"


text \<open>\<open>Math.round\<close>: the nearest integer, a tie going up; an integer of a double's range
  is a double, so nothing is rounded a second time.\<close>

fun Math_round :: "jsnum \<Rightarrow> jsnum" where
  "Math_round (Fin x) = Fin (of_int \<lfloor>x + 1 / 2\<rfloor>)"
| "Math_round a = a"

text \<open>\<open>Math.max\<close> and \<open>Math.min\<close> of two numbers: \<open>NaN\<close> as soon as one is.\<close>

definition Math_max :: "jsnum \<Rightarrow> jsnum \<Rightarrow> jsnum" where
  "Math_max a b = (if a = NaN \<or> b = NaN then NaN else if num_le a b then b else a)"

definition Math_min :: "jsnum \<Rightarrow> jsnum \<Rightarrow> jsnum" where
  "Math_min a b = (if a = NaN \<or> b = NaN then NaN else if num_le a b then a else b)"

section \<open>Tension engine (utils/tensionCalc.js)\<close>

definition CATEGORY_SCORES :: "(jsstring \<times> jsnum) list" where
  "CATEGORY_SCORES =
     [(str ''military'', Fin 8), (str ''nuclear'', Fin 6), (str ''economic'', Fin 5),
      (str ''cyber'', Fin 4), (str ''diplomatic'', Fin 3), (str ''other'', Fin 1)]"

definition CRITICAL_KEYWORDS :: "jsstring list" where
  "CRITICAL_KEYWORDS =
     [str ''strike'', str ''attack'', str ''missile'', str ''launched'', str ''fired'',
      str ''bomb'', str ''retaliation'', str ''war'', str ''invasion'',
      str ''nuclear weapon'', str ''warhead'',
      str ''ataque'', str ''m'' @ [237] @ str ''ssil'', str ''guerra'', str ''bomba'',
      str ''retalia'' @ [231, 227] @ str ''o'',
      [1590, 1585, 1576, 1577], [1589, 1575, 1585, 1608, 1582], [1581, 1585, 1576]]"

definition DEESCALATION_KEYWORDS :: "jsstring list" where
  "DEESCALATION_KEYWORDS =
     [str ''negotiation'', str ''agreement'', str ''deal'', str ''ceasefire'',
      str ''diplomacy'', str ''talks'', str ''peace'', str ''accord'', str ''dialogue'',
      str ''negocia'' @ [231, 227] @ str ''o'', str ''acordo'', str ''cessar-fogo'',
      str ''diplomacia'', str ''paz'']"

text \<open>
  The names of the properties that the table, an object literal, inherits from
  \<open>Object.prototype\<close>. Reading one of them yields a function (the prototype object
  for \<open>__proto__\<close>), which is truthy and whose value as a number is \<open>NaN\<close>.
\<close>

definition inheritedKeys :: "jsstring list" where
  "inheritedKeys =
     [str ''constructor'', str ''__defineGetter__'', str ''__defineSetter__'',
      str ''hasOwnProperty'', str ''__lookupGetter__'', str ''__lookupSetter__'',
      str ''isPrototypeOf'', str ''propertyIsEnumerable'', str ''toString'',
      str ''valueOf'', str ''__proto__'', str ''toLocaleString'']"

text \<open>\<open>CATEGORY_SCORES[category] || 1\<close>, as the number the product reads: every weight
  of the table is non-zero, so the default applies exactly to the categories that name
  neither an entry of the table nor an inherited property.\<close>

definition baseScore :: "jsstring \<Rightarrow> jsnum" where
  "baseScore category =
     (case map_of CATEGORY_SCORES category of
        Some w \<Rightarrow> w
      | None \<Rightarrow> (if category \<in> set inheritedKeys then NaN else Fin 1))"

definition hasCritical :: "jsstring \<Rightarrow> bool" where
  "hasCritical title = some CRITICAL_KEYWORDS (\<lambda>kw. includes_js (toLowerCase title) kw)"

definition hasDeescalation :: "jsstring \<Rightarrow> bool" where
  "hasDeescalation title = some DEESCALATION_KEYWORDS (\<lambda>kw. includes_js (toLowerCase title) kw)"

text \<open>The base product: the category weight times the AI multiplier.\<close>

abbreviation baseProduct :: "jsstring \<Rightarrow> jsnum \<Rightarrow> jsnum" where
  "baseProduct category aiScore \<equiv>
     num_mul (baseScore category) (num_add (Fin (1 / 2)) (num_div aiScore (Fin 10)))"

definition calculateTensionDelta :: "jsstring \<Rightarrow> jsnum \<Rightarrow> jsstring \<Rightarrow> jsnum" where
  "calculateTensionDelta category aiScore title =
     (let aiMultiplier = num_add (Fin (1 / 2)) (num_div aiScore (Fin 10));
          delta = num_mul (baseScore category) aiMultiplier;
          delta = (if hasCritical title then num_mul delta (lit (13 / 10)) else delta);
          delta = (if hasDeescalation title then num_mul delta (Fin (- (1 / 2))) else delta)
      in num_div (Math_round (num_mul delta (Fin 100))) (Fin 100))"

definition applyTensionDelta :: "jsnum \<Rightarrow> jsnum \<Rightarrow> jsnum" where
  "applyTensionDelta current delta =
     (let newValue = num_add current delta;
          BASELINE = Fin 60;
          GRAVITY = lit (2 / 100);
          withGravity = num_add newValue (num_mul (num_sub BASELINE newValue) GRAVITY)
      in Math_min (Fin 100)
           (Math_max (Fin 0) (num_div (Math_round (num_mul withGravity (Fin 100))) (Fin 100))))"

text \<open>
  Articles as the fetcher returns them (services/news.js keeps only articles whose
  title and url are truthy; the description may be missing).
\<close>

record article =
  title :: jsstring
  description :: "jsstring option"
  url :: jsstring
  source :: jsstring
  published_at :: jsstring

text \<open>The argument of \<open>shouldTriggerAlert\<close>: \<open>{ ...article, impact_score }\<close>.\<close>

record event = article +
  event_impact_score :: jsnum

definition ALERT_KEYWORDS :: "jsstring list" where
  "ALERT_KEYWORDS =
     [str ''strike'', str ''missile'', str ''retaliation'', str ''attack'',
      str ''nuclear weapon'', str ''enrichment above 80'', str ''warship'',
      str ''blockade'', str ''explosion'',
      str ''ataque'', str ''m'' @ [237] @ str ''ssil'',
      str ''retalia'' @ [231, 227] @ str ''o'', str ''bloqueio'']"

text \<open>\<open>event.description || ''\<close>: a missing description reads as the empty string.\<close>

definition alertText :: "event \<Rightarrow> jsstring" where
  "alertText e =
     toLowerCase (title e @ str '' '' @ (case description e of Some d \<Rightarrow> d | None \<Rightarrow> []))"

definition shouldTriggerAlert :: "event \<Rightarrow> bool" where
  "shouldTriggerAlert e =
     (num_le (Fin 8) (event_impact_score e)
      \<or> some ALERT_KEYWORDS (\<lambda>kw. includes_js (alertText e) kw))"

section \<open>Classification gateway (services/claude.js)\<close>

text \<open>A thrown value or a rejected promise.\<close>

datatype js_error = JsError string

text \<open>
  JavaScript values of any type, for the properties the core reads without knowing
  their type. \<open>!v\<close> negates the truthiness of \<open>v\<close>; \<open>===\<close> is false on operands of
  different types and compares operands of the same type (objects by identity).
\<close>

datatype jsval =
  JUndefined | JNull | JBool bool | JNumber jsnum | JString jsstring | JObject nat

fun truthy :: "jsval \<Rightarrow> bool" where
  "truthy JUndefined = False"
| "truthy JNull = False"
| "truthy (JBool b) = b"
| "truthy (JNumber x) = (x \<noteq> Fin 0 \<and> x \<noteq> NaN)"
| "truthy (JString s) = (s \<noteq> [])"
| "truthy (JObject i) = True"

definition js_not :: "jsval \<Rightarrow> jsval" where
  "js_not v = JBool (\<not> truthy v)"

fun strictEquals :: "jsval \<Rightarrow> jsval \<Rightarrow> bool" where
  "strictEquals JUndefined JUndefined = True"
| "strictEquals JNull JNull = True"
| "strictEquals (JBool a) (JBool b) = (a = b)"
| "strictEquals (JNumber x) (JNumber y) = (x = y \<and> x \<noteq> NaN)"
| "strictEquals (JString s) (JString t) = (s = t)"
| "strictEquals (JObject i) (JObject j) = (i = j)"
| "strictEquals v w = False"

text \<open>
  What \<open>JSON.parse\<close> returns, as far as the core reads it: \<open>null\<close>, on which every
  property access throws a \<open>TypeError\<close>, or another value, of which the core reads
  properties. A classification is read as an object with the fields the prompt asks
  for, each of the type asked for. Of a translation the four properties are only copied
  into the row, so each is kept as a value of any type, \<open>undefined\<close> when the parsed
  value has no such property.
\<close>

datatype 'a json = JsonNull | JsonObject 'a

record classification =
  category :: jsstring
  impact_score :: jsnum
  is_critical :: bool
  summary_pt :: jsstring
  summary_en :: jsstring
  keywords_list :: "jsstring list"

record title_translations =
  pt :: jsval
  es :: jsval
  ar :: jsval
  fa :: jsval

text \<open>
  \<open>String.prototype.trim\<close> removes white space and line terminators at both ends.
\<close>

definition isWhiteSpace :: "nat \<Rightarrow> bool" where
  "isWhiteSpace c =
     (c \<in> set [9, 10, 11, 12, 13, 32, 160, 5760, 8232, 8233, 8239, 8287, 12288, 65279]
      \<or> (8192 \<le> c \<and> c \<le> 8202))"

definition trim :: "jsstring \<Rightarrow> jsstring" where
  "trim s = rev (dropWhile isWhiteSpace (rev (dropWhile isWhiteSpace s)))"

text \<open>
  \<open>.replace(/```json|```/g, '')\<close>: scanning from the left, every match of the first
  alternative, else of the second, is deleted.
\<close>

function replaceFences :: "jsstring \<Rightarrow> jsstring" where
  "replaceFences [] = []"
| "replaceFences (c # cs) =
     (if startsWith (c # cs) (str ''```json'') then replaceFences (drop 7 (c # cs))
      else if startsWith (c # cs) (str ''```'') then replaceFences (drop 3 (c # cs))
      else c # replaceFences cs)"
  by pat_completeness auto
termination
  by (relation "measure length") auto

text \<open>The level of a log line. A log line is kept as its level and its message, in
  ASCII; the structured fields logged with it are left out. Logging does not throw.\<close>

datatype level = Info | Warn | Err

text \<open>The row sent to \<open>news_events\<close>, and the row the store returns for it.\<close>

record news_event =
  ev_title :: jsstring
  ev_description :: "jsstring option"
  ev_url :: jsstring
  ev_source :: jsstring
  ev_published_at :: jsstring
  ev_category :: jsstring
  ev_impact_score :: jsnum
  ev_is_critical :: bool
  ai_summary :: jsstring
  ev_keywords :: "jsstring list"
  tension_delta :: jsnum
  title_en :: jsstring
  title_pt :: jsval
  title_es :: jsval
  title_ar :: jsval
  title_fa :: jsval

record saved_event = news_event +
  ev_id :: jsstring

record insert_error =
  code :: jsval
  message :: jsstring

record alert =
  alert_id :: jsstring
  alert_title :: jsstring
  alert_message :: jsstring

record user =
  user_id :: jsstring
  telegram_chat_id :: "jsstring option"
  alert_telegram_enabled :: bool

text \<open>The effects the core performs, which a trace lists in the order they happen.\<close>

datatype action =
    Log level string
  | FetchLatestNews
  | SelectLatestTension
  | SelectEventByUrl jsstring
  | MessagesCreateClassify jsstring "jsstring option"
  | MessagesCreateTranslate jsstring
  | InsertEvent news_event
  | InsertTension jsnum nat
  | Sleep nat
  | CreateAlert jsstring jsstring jsstring string jsstring
  | SendTelegramAlert jsstring jsstring string
  | SelectProUsers
  | NotifyProUsersViaTelegram alert "user list"

text \<open>
  The external collaborators, as the answers they give. \<open>Inl\<close> is a rejected promise.
  \<open>JSON.parse\<close> answers \<open>None\<close> for a \<open>SyntaxError\<close>. The event store answers an
  insert followed by \<open>.select().single()\<close> with an error or with the stored row.
\<close>

record world =
  fetchLatestNews :: "js_error + article list"
  latestTension :: "js_error + jsnum option"
  eventExists :: "jsstring \<Rightarrow> js_error + bool"
  classifyResponse :: "jsstring \<Rightarrow> jsstring option \<Rightarrow> js_error + jsstring"
  JSON_parse_classification :: "jsstring \<Rightarrow> classification json option"
  translateResponse :: "jsstring \<Rightarrow> js_error + jsstring"
  JSON_parse_translations :: "jsstring \<Rightarrow> title_translations json option"
  insertEvent :: "news_event \<Rightarrow> js_error + (insert_error + saved_event)"
  insertTension :: "jsnum \<Rightarrow> nat \<Rightarrow> js_error option"
  createAlert :: "jsstring \<Rightarrow> jsstring \<Rightarrow> jsstring \<Rightarrow> string \<Rightarrow> jsstring
                    \<Rightarrow> js_error + alert option"
  selectProUsers :: "js_error + user list option"

text \<open>The safe default of \<open>classifyNewsEvent\<close>'s \<open>catch\<close> block.\<close>

definition fallbackClassification :: "jsstring \<Rightarrow> classification" where
  "fallbackClassification title' =
     \<lparr>category = str ''other'', impact_score = Fin 3, is_critical = False,
      summary_pt = take 100 title', summary_en = take 100 title', keywords_list = []\<rparr>"

definition classifyNewsEvent ::
  "world \<Rightarrow> jsstring \<Rightarrow> jsstring option \<Rightarrow> classification json \<times> action list" where
  "classifyNewsEvent w title' description' =
     (case classifyResponse w title' description' of
        Inl err \<Rightarrow>
          (JsonObject (fallbackClassification title'),
           [MessagesCreateClassify title' description',
            Log Err ''classifyNewsEvent parse error''])
      | Inr text \<Rightarrow>
          (let raw = trim text;
               cleaned = trim (replaceFences raw)
           in case JSON_parse_classification w cleaned of
                None \<Rightarrow>
                  (JsonObject (fallbackClassification title'),
                   [MessagesCreateClassify title' description',
                    Log Err ''classifyNewsEvent parse error''])
              | Some parsed \<Rightarrow> (parsed, [MessagesCreateClassify title' description'])))"

definition translateNewsTitle ::
  "world \<Rightarrow> jsstring \<Rightarrow> title_translations json \<times> action list" where
  "translateNewsTitle w titleEn =
     (case translateResponse w titleEn of
        Inl err \<Rightarrow>
          (JsonObject \<lparr>pt = JString titleEn, es = JString titleEn,
                       ar = JString titleEn, fa = JString titleEn\<rparr>,
           [MessagesCreateTranslate titleEn, Log Err ''translateNewsTitle error''])
      | Inr text \<Rightarrow>
          (let raw = trim text;
               cleaned = trim (replaceFences raw)
           in case JSON_parse_translations w cleaned of
                None \<Rightarrow>
                  (JsonObject \<lparr>pt = JString titleEn, es = JString titleEn,
                       ar = JString titleEn, fa = JString titleEn\<rparr>,
                   [MessagesCreateTranslate titleEn, Log Err ''translateNewsTitle error''])
              | Some parsed \<Rightarrow> (parsed, [MessagesCreateTranslate titleEn])))"

section \<open>Cycle orchestrator (jobs/newsCron.js)\<close>

record alert_data =
  ad_event :: saved_event
  ad_score :: jsnum
  ad_summary :: jsstring

text \<open>\<open>{ ...article, impact_score: classification.impact_score }\<close>\<close>

definition withImpactScore :: "article \<Rightarrow> jsnum \<Rightarrow> event" where
  "withImpactScore a score =
     \<lparr>title = title a, description = description a, url = url a, source = source a,
      published_at = published_at a, event_impact_score = score\<rparr>"

text \<open>The object handed to \<open>.insert(...)\<close> for one article.\<close>

definition newsEventPayload ::
  "article \<Rightarrow> classification \<Rightarrow> title_translations \<Rightarrow> jsnum \<Rightarrow> news_event" where
  "newsEventPayload a c tr delta =
     \<lparr>ev_title = title a,
      ev_description = description a,
      ev_url = url a,
      ev_source = source a,
      ev_published_at = published_at a,
      ev_category = category c,
      ev_impact_score = impact_score c,
      ev_is_critical =
        (is_critical c \<or> shouldTriggerAlert (withImpactScore a (impact_score c))),
      ai_summary = summary_pt c,
      ev_keywords = keywords_list c,
      tension_delta = delta,
      title_en = title a,
      title_pt = pt tr,
      title_es = es tr,
      title_ar = ar tr,
      title_fa = fa tr\<rparr>"

text \<open>The condition of line 104, \<open>!insertError.code === '23505'\<close>, as JavaScript reads
  it: the negation applies to \<open>insertError.code\<close>, the comparison to its result.\<close>

definition insertErrorCheck :: "insert_error \<Rightarrow> bool" where
  "insertErrorCheck insertError =
     strictEquals (js_not (code insertError)) (JString (str ''23505''))"

text \<open>
  The body of the \<open>for\<close> loop for one article, with its own \<open>try\<close>/\<open>catch\<close>: the
  running tension, the queued alerts and the effects of the step. Reading
  \<open>classification.category\<close> (line 73) or \<open>translations.pt\<close> (line 94) of a \<open>null\<close>
  throws, after both gateways were asked and before the insert is issued.
\<close>

definition processArticle ::
  "world \<Rightarrow> article \<Rightarrow> jsnum \<Rightarrow> alert_data list \<Rightarrow> jsnum \<times> alert_data list \<times> action list" where
  "processArticle w a currentTension alertsToFire =
     (case eventExists w (url a) of
        Inl err \<Rightarrow>
          (currentTension, alertsToFire,
           [SelectEventByUrl (url a), Log Err ''Article processing error''])
      | Inr True \<Rightarrow> (currentTension, alertsToFire, [SelectEventByUrl (url a)])
      | Inr False \<Rightarrow>
          (let (classification, acts1) = classifyNewsEvent w (title a) (description a);
               (translations, acts2) = translateNewsTitle w (title a);
               asked = [SelectEventByUrl (url a)] @ acts1 @ acts2
           in case classification of
                JsonNull \<Rightarrow>
                  (currentTension, alertsToFire, asked @ [Log Err ''Article processing error''])
              | JsonObject c \<Rightarrow>
                  (case translations of
                     JsonNull \<Rightarrow>
                       (currentTension, alertsToFire,
                        asked @ [Log Err ''Article processing error''])
                   | JsonObject tr \<Rightarrow>
                       (let delta = calculateTensionDelta (category c) (impact_score c) (title a);
                            payload = newsEventPayload a c tr delta;
                            acts = asked @ [InsertEvent payload]
                        in case insertEvent w payload of
                             Inl err \<Rightarrow>
                               (currentTension, alertsToFire,
                                acts @ [Log Err ''Article processing error''])
                           | Inr (Inl insertError) \<Rightarrow>
                               (currentTension, alertsToFire,
                                acts @ (if insertErrorCheck insertError
                                        then [Log Err ''Insert error''] else []))
                           | Inr (Inr savedEvent) \<Rightarrow>
                               (applyTensionDelta currentTension delta,
                                (if ev_is_critical savedEvent \<or> num_le (Fin 8) (impact_score c)
                                 then alertsToFire @
                                        [\<lparr>ad_event = savedEvent, ad_score = impact_score c,
                                          ad_summary = summary_pt c\<rparr>]
                                 else alertsToFire),
                                acts @ [Log Info ''Event processed'', Sleep 500])))))"

fun processArticles ::
  "world \<Rightarrow> article list \<Rightarrow> jsnum \<Rightarrow> alert_data list \<Rightarrow> jsnum \<times> alert_data list \<times> action list" where
  "processArticles w [] currentTension alertsToFire = (currentTension, alertsToFire, [])"
| "processArticles w (a # rest) currentTension alertsToFire =
     (let (t1, al1, acts1) = processArticle w a currentTension alertsToFire;
          (t2, al2, acts2) = processArticles w rest t1 al1
      in (t2, al2, acts1 @ acts2))"

text \<open>\<open>processAlert\<close> catches whatever its body throws.\<close>

definition severityOf :: "jsnum \<Rightarrow> string" where
  "severityOf score =
     (if num_le (Fin 9) score then ''critical''
      else if num_le (Fin 7) score then ''high'' else ''medium'')"

definition alertMessage :: "alert_data \<Rightarrow> jsstring" where
  "alertMessage d =
     (if ad_summary d \<noteq> [] then ad_summary d
      else case ev_description (ad_event d) of
             Some (x # xs) \<Rightarrow> x # xs
           | _ \<Rightarrow> str ''Evento cr'' @ [237] @ str ''tico detectado'')"

definition processAlert :: "world \<Rightarrow> alert_data \<Rightarrow> action list" where
  "processAlert w d =
     (let severity = severityOf (ad_score d);
          ev = ad_event d;
          create = CreateAlert (ev_id ev) (ev_title ev) (alertMessage d) severity (ev_category ev)
      in case createAlert w (ev_id ev) (ev_title ev) (alertMessage d) severity (ev_category ev) of
           Inl err \<Rightarrow> [create, Log Err ''processAlert failed'']
         | Inr None \<Rightarrow> [create]
         | Inr (Some al) \<Rightarrow>
             [create, Log Info ''Alert created'',
              SendTelegramAlert (alert_title al) (alert_message al) severity, SelectProUsers] @
             (case selectProUsers w of
                Inl err \<Rightarrow> [Log Err ''processAlert failed'']
              | Inr None \<Rightarrow> []
              | Inr (Some proUsers) \<Rightarrow>
                  (if length proUsers \<noteq> 0 then [NotifyProUsersViaTelegram al proUsers] else [])))"

text \<open>\<open>latestTension?.tension_value || 75\<close>: no row, or a falsy value (0 or \<open>NaN\<close>),
  reads as 75.\<close>

definition initialTension :: "jsnum option \<Rightarrow> jsnum" where
  "initialTension latest =
     (case latest of
        None \<Rightarrow> Fin 75
      | Some v \<Rightarrow> (if v \<noteq> Fin 0 \<and> v \<noteq> NaN then v else Fin 75))"

text \<open>
  The \<open>try\<close> block of \<open>runNewsCycle\<close>: the exception that leaves it, if any, and its
  effects.
\<close>

definition tryBlock :: "world \<Rightarrow> js_error option \<times> action list" where
  "tryBlock w =
     (case fetchLatestNews w of
        Inl err \<Rightarrow> (Some err, [FetchLatestNews])
      | Inr articles \<Rightarrow>
          if length articles = 0 then (None, [FetchLatestNews, Log Info ''No new articles found''])
          else
            (case latestTension w of
               Inl err \<Rightarrow> (Some err, [FetchLatestNews, SelectLatestTension])
             | Inr latest \<Rightarrow>
                 (let (currentTension, alertsToFire, acts) =
                        processArticles w articles (initialTension latest) [];
                      done = [FetchLatestNews, SelectLatestTension] @ acts @
                             [InsertTension currentTension (length articles)]
                  in case insertTension w currentTension (length articles) of
                       Some err \<Rightarrow> (Some err, done)
                     | None \<Rightarrow>
                         (None, done @ [Log Info ''Tension updated''] @
                                concat (map (processAlert w) alertsToFire) @
                                [Log Info ''News cycle completed'']))))"

text \<open>The module-scoped guard flag and the effects performed so far.\<close>

record state =
  isRunning :: bool
  trace :: "action list"

text \<open>
  The states of the module along one invocation of \<open>runNewsCycle\<close>. A skipped
  invocation has one: the warning logged, the flag untouched. Any other has four: the
  flag taken (this is the state every \<open>await\<close> of the \<open>try\<close> block suspends in, the
  block itself never writing the flag), the \<open>try\<close> block left, the \<open>catch\<close> clause
  done, the \<open>finally\<close> clause done.
\<close>

definition cycleStates :: "world \<Rightarrow> state \<Rightarrow> state list" where
  "cycleStates w s =
     (if isRunning s
      then [s\<lparr>trace := trace s @ [Log Warn ''News cron already running - skipping'']\<rparr>]
      else
        (let s1 = s\<lparr>isRunning := True, trace := trace s @ [Log Info ''News cycle started'']\<rparr>;
             (thrown, acts) = tryBlock w;
             s2 = s1\<lparr>trace := trace s1 @ acts\<rparr>;
             s3 = (case thrown of
                     Some err \<Rightarrow> s2\<lparr>trace := trace s2 @ [Log Err ''News cycle failed'']\<rparr>
                   | None \<Rightarrow> s2);
             s4 = s3\<lparr>isRunning := False\<rparr>
         in [s1, s2, s3, s4]))"

text \<open>The state an invocation returns in.\<close>

definition runNewsCycle :: "world \<Rightarrow> state \<Rightarrow> state" where
  "runNewsCycle w s = last (cycleStates w s)"

section \<open>Observing the effects\<close>

text \<open>The rows sent to \<open>news_events\<close> and the values sent to \<open>tension_history\<close>, in order.\<close>

fun insertedEvents :: "action list \<Rightarrow> news_event list" where
  "insertedEvents [] = []"
| "insertedEvents (InsertEvent p # acts) = p # insertedEvents acts"
| "insertedEvents (other # acts) = insertedEvents acts"

fun insertedTensions :: "action list \<Rightarrow> jsnum list" where
  "insertedTensions [] = []"
| "insertedTensions (InsertTension v n # acts) = v # insertedTensions acts"
| "insertedTensions (other # acts) = insertedTensions acts"

section \<open>Concrete inputs\<close>

definition missileArticle :: article where
  "missileArticle =
     \<lparr>title = str ''missile strike reported'', description = None,
      url = str ''https://example.org/a1'', source = str ''Unknown'',
      published_at = str ''2025-02-01T00:00:00Z''\<rparr>"

definition routineArticle :: article where
  "routineArticle =
     \<lparr>title = str ''routine statement'', description = Some (str ''no change''),
      url = str ''https://example.org/a2'', source = str ''Unknown'',
      published_at = str ''2025-02-01T00:00:00Z''\<rparr>"

text \<open>A store that returns the row it was given, with an id.\<close>

definition storeEcho :: "news_event \<Rightarrow> js_error + (insert_error + saved_event)" where
  "storeEcho p = Inr (Inr (news_event.extend p (saved_event.fields (str ''id-1''))))"

text \<open>A store that refuses every insert with the given error code.\<close>

definition storeRefuses :: "jsval \<Rightarrow> news_event \<Rightarrow> js_error + (insert_error + saved_event)" where
  "storeRefuses c p = Inr (Inl \<lparr>code = c, message = str ''refused''\<rparr>)"

text \<open>Answers of the classification gateway: two JSON texts, the second one inside a
  code fence, a text that is not JSON, and the JSON text \<open>null\<close>.\<close>

definition routineJson :: jsstring where
  \<open>routineJson = str ''{"category":"diplomatic","impact_score":2,"is_critical":false,"summary_pt":"resumo","summary_en":"summary","keywords":[]}''\<close>

definition score15Json :: jsstring where
  \<open>score15Json = str ''{"category":"military","impact_score":15,"is_critical":false,"summary_pt":"resumo","summary_en":"summary","keywords":[]}''\<close>

definition score15Fenced :: jsstring where
  "score15Fenced = str ''```json'' @ [10] @ score15Json @ [10] @ str ''```''"

definition notJson :: jsstring where
  "notJson = str ''I cannot classify this article.''"

definition nullJson :: jsstring where
  "nullJson = str ''null''"

definition routineClassification :: classification where
  "routineClassification =
     \<lparr>category = str ''diplomatic'', impact_score = Fin 2, is_critical = False,
      summary_pt = str ''resumo'', summary_en = str ''summary'', keywords_list = []\<rparr>"

definition score15Classification :: classification where
  "score15Classification =
     \<lparr>category = str ''military'', impact_score = Fin 15, is_critical = False,
      summary_pt = str ''resumo'', summary_en = str ''summary'', keywords_list = []\<rparr>"

text \<open>\<open>JSON.parse\<close> on these texts.\<close>

definition exampleParse :: "jsstring \<Rightarrow> classification json option" where
  "exampleParse s =
     (if s = routineJson then Some (JsonObject routineClassification)
      else if s = score15Json then Some (JsonObject score15Classification)
      else if s = nullJson then Some JsonNull
      else None)"

definition exampleParseTranslations :: "jsstring \<Rightarrow> title_translations json option" where
  "exampleParseTranslations s = (if s = nullJson then Some JsonNull else None)"

text \<open>
  A world with the given latest tension sample, tension store answer and articles, no
  stored event, the given answers of the classification and translation gateways, and
  the given event store.
\<close>

definition exampleWorld ::
  "jsnum option \<Rightarrow> js_error option \<Rightarrow> article list \<Rightarrow> js_error + jsstring
     \<Rightarrow> js_error + jsstring
     \<Rightarrow> (news_event \<Rightarrow> js_error + (insert_error + saved_event)) \<Rightarrow> world" where
  "exampleWorld latest tensionStore articles classifyAnswer translateAnswer store =
     \<lparr>fetchLatestNews = Inr articles,
      latestTension = Inr latest,
      eventExists = (\<lambda>u. Inr False),
      classifyResponse = (\<lambda>t d. classifyAnswer),
      JSON_parse_classification = exampleParse,
      translateResponse = (\<lambda>t. translateAnswer),
      JSON_parse_translations = exampleParseTranslations,
      insertEvent = store,
      insertTension = (\<lambda>v n. tensionStore),
      createAlert = (\<lambda>i t m sv c. Inr None),
      selectProUsers = Inr None\<rparr>"

text \<open>A translation request that times out.\<close>

definition timeout :: "js_error + jsstring" where
  "timeout = Inl (JsError ''timeout'')"

definition idle :: state where
  "idle = \<lparr>isRunning = False, trace = []\<rparr>"

definition running :: state where
  "running = \<lparr>isRunning = True, trace = []\<rparr>"

section \<open>Notation for the step of one article\<close>

text \<open>
  What the loop body has at hand for an article that is not stored yet: the answers of
  the two gateways as \<open>classifyNewsEvent\<close> and \<open>translateNewsTitle\<close> return them, the
  requests made for them, and the row built from a classification and a translation.
\<close>

abbreviation classified :: "world \<Rightarrow> article \<Rightarrow> classification json" where
  "classified w a \<equiv> fst (classifyNewsEvent w (title a) (description a))"

abbreviation translated :: "world \<Rightarrow> article \<Rightarrow> title_translations json" where
  "translated w a \<equiv> fst (translateNewsTitle w (title a))"

abbreviation askedOf :: "world \<Rightarrow> article \<Rightarrow> action list" where
  "askedOf w a \<equiv>
     SelectEventByUrl (url a) # snd (classifyNewsEvent w (title a) (description a))
       @ snd (translateNewsTitle w (title a))"

abbreviation payloadFor :: "article \<Rightarrow> classification \<Rightarrow> title_translations \<Rightarrow> news_event" where
  "payloadFor a c tr \<equiv>
     newsEventPayload a c tr (calculateTensionDelta (category c) (impact_score c) (title a))"

section \<open>Facts about the rounding\<close>

lemma expo_bounds:
  assumes "x \<noteq> 0"
  shows "2 powi (expo x) \<le> \<bar>x\<bar> \<and> \<bar>x\<bar> < 2 powi (expo x + 1)"
proof (cases "1 \<le> \<bar>x\<bar>")
  case True
  define m where "m = \<lfloor>\<bar>x\<bar>\<rfloor>"
  have m: "1 \<le> m" using True by (simp add: m_def)
  then have b: "1 \<le> bitlen m" by (simp add: bitlen_alt_def)
  have bb: "2 ^ nat (bitlen m - 1) \<le> m" "m + 1 \<le> 2 ^ nat (bitlen m)"
    using bitlen_bounds [of m] m by auto
  have e: "expo x = bitlen m - 1" using True by (simp add: expo_def m_def)
  have p1: "2 powi (bitlen m - 1) = (2::real) ^ nat (bitlen m - 1)"
    using b by (simp add: power_int_def)
  have p2: "2 powi (bitlen m - 1 + 1) = (2::real) ^ nat (bitlen m)"
    using b by (simp add: power_int_def)
  have r1: "(2::real) ^ nat (bitlen m - 1) \<le> real_of_int m"
    using bb(1) by simp
  have r2: "real_of_int m + 1 \<le> (2::real) ^ nat (bitlen m)"
    using bb(2) by (metis of_int_le_numeral_power_cancel_iff of_int_add of_int_1)
  have x1: "real_of_int m \<le> \<bar>x\<bar>" "\<bar>x\<bar> < real_of_int m + 1"
    unfolding m_def by linarith+
  show ?thesis unfolding e p1 p2 using r1 r2 x1 by linarith
next
  case False
  define y where "y = 1 / \<bar>x\<bar>"
  define c where "c = \<lceil>y\<rceil>"
  have xpos: "0 < \<bar>x\<bar>" using assms by simp
  have y1: "1 < y" using False xpos by (simp add: y_def)
  have c2: "2 \<le> c" using y1 by (simp add: c_def)
  define k where "k = bitlen (c - 1)"
  have k1: "1 \<le> k" using c2 by (simp add: k_def bitlen_alt_def)
  have bb: "2 ^ nat (k - 1) \<le> c - 1" "c \<le> 2 ^ nat k"
    using bitlen_bounds [of "c - 1"] c2 by (auto simp: k_def)
  have e: "expo x = - k" using False by (simp add: expo_def k_def c_def y_def)
  have cy: "real_of_int c - 1 < y" "y \<le> real_of_int c"
    unfolding c_def by linarith+
  have r1: "real_of_int c \<le> (2::real) ^ nat k" using bb(2) by simp
  have r2: "(2::real) ^ nat (k - 1) \<le> real_of_int c - 1"
    using bb(1) by (metis numeral_power_le_of_int_cancel_iff of_int_diff of_int_1)
  have yk: "y \<le> 2 ^ nat k" using cy(2) r1 by linarith
  have yk1: "2 ^ nat (k - 1) < y" using cy(1) r2 by linarith
  have p1: "2 powi (- k) = 1 / (2::real) ^ nat k"
    using k1 by (simp add: power_int_def inverse_eq_divide power_one_over)
  have p2: "2 powi (- k + 1) = 1 / (2::real) ^ nat (k - 1)"
    using k1 by (cases "k = 1")
      (simp_all add: power_int_def inverse_eq_divide nat_diff_distrib power_one_over)
  have xy: "\<bar>x\<bar> = 1 / y" using xpos by (simp add: y_def)
  have lo: "1 / 2 ^ nat k \<le> 1 / y" using yk y1 by (simp add: frac_le)
  have hi: "1 / y < 1 / 2 ^ nat (k - 1)" using yk1 by (simp add: frac_less2)
  show ?thesis unfolding e p1 p2 xy using lo hi by blast
qed


lemma expo_eq:
  assumes "x \<noteq> 0" and "2 powi e \<le> \<bar>x\<bar>" and "\<bar>x\<bar> < 2 powi (e + 1)"
  shows "expo x = e"
proof (rule ccontr)
  assume ne: "expo x \<noteq> e"
  note b = expo_bounds [OF assms(1)]
  show False
  proof (cases "expo x < e")
    case True
    then have "(2::real) powi (expo x + 1) \<le> 2 powi e"
      by (intro power_int_increasing) auto
    with b assms(2) show False by linarith
  next
    case False
    with ne have "e + 1 \<le> expo x" by simp
    then have "(2::real) powi (e + 1) \<le> 2 powi (expo x)"
      by (intro power_int_increasing) auto
    with b assms(3) show False by linarith
  qed
qed

lemma roundTiesToEven_near:
  assumes "\<bar>q - of_int n\<bar> < 1 / 2"
  shows "roundTiesToEven q = n"
proof -
  have "\<lfloor>q\<rfloor> = n \<or> \<lfloor>q\<rfloor> = n - 1" using assms by linarith
  then show ?thesis
  proof
    assume f: "\<lfloor>q\<rfloor> = n"
    have "q - of_int \<lfloor>q\<rfloor> < 1 / 2" unfolding f using assms by linarith
    then show ?thesis by (simp add: roundTiesToEven_def Let_def f)
  next
    assume f: "\<lfloor>q\<rfloor> = n - 1"
    have "1 / 2 < q - of_int \<lfloor>q\<rfloor>"
      unfolding f of_int_diff of_int_1 using assms by linarith
    then show ?thesis by (simp add: roundTiesToEven_def Let_def f)
  qed
qed

lemma roundTiesToEven_tie:
  assumes "\<bar>q - of_int n\<bar> = 1 / 2" and "even n"
  shows "roundTiesToEven q = n"
proof -
  have "\<lfloor>q\<rfloor> = n \<or> \<lfloor>q\<rfloor> = n - 1" using assms(1) by linarith
  then show ?thesis
  proof
    assume f: "\<lfloor>q\<rfloor> = n"
    have "q - of_int \<lfloor>q\<rfloor> = 1 / 2" using assms(1) f by linarith
    then show ?thesis using assms(2) by (simp add: roundTiesToEven_def Let_def f)
  next
    assume f: "\<lfloor>q\<rfloor> = n - 1"
    have "q - of_int \<lfloor>q\<rfloor> = 1 / 2" using assms(1) f by linarith
    then show ?thesis using assms(2) by (simp add: roundTiesToEven_def Let_def f)
  qed
qed

lemma roundTiesToEven_ge:
  assumes "of_int k \<le> q"
  shows "k \<le> roundTiesToEven q"
proof -
  have "k \<le> \<lfloor>q\<rfloor>" using assms by (simp add: le_floor_iff)
  then show ?thesis by (simp add: roundTiesToEven_def Let_def)
qed

lemma roundTiesToEven_le:
  assumes "q \<le> of_int k"
  shows "roundTiesToEven q \<le> k"
proof (cases "q = of_int k")
  case True
  then show ?thesis by (simp add: roundTiesToEven_def Let_def)
next
  case False
  with assms have "q < of_int k" by simp
  then have "\<lfloor>q\<rfloor> < k" by (simp add: floor_less_iff)
  then show ?thesis by (simp add: roundTiesToEven_def Let_def)
qed

text \<open>Evaluating a rounding in the normal range, given the exponent and the significand.\<close>

lemma rnd_eval:
  assumes "2 powi e \<le> \<bar>x\<bar>" and "\<bar>x\<bar> < 2 powi (e + 1)" and "- 1022 \<le> e" and "e \<le> 1022"
    and "\<bar>x / 2 powi (e - 52) - of_int n\<bar> < 1 / 2
         \<or> (\<bar>x / 2 powi (e - 52) - of_int n\<bar> = 1 / 2 \<and> even n)"
    and "y = of_int n * 2 powi (e - 52)"
  shows "rnd x = Fin y"
proof -
  let ?u = "(2::real) powi (e - 52)"
  have upos: "0 < ?u" by (rule zero_less_power_int) simp
  have "0 < (2::real) powi e" by (rule zero_less_power_int) simp
  then have "0 < \<bar>x\<bar>" using assms(1) by linarith
  then have x0: "x \<noteq> 0" by auto
  have e: "expo x = e" using x0 assms(1,2) by (rule expo_eq)
  have u: "ulp x = ?u" using assms(3) by (simp add: ulp_def e max_def)
  have n: "roundTiesToEven (x / ?u) = n"
    using assms(5) by (auto intro: roundTiesToEven_near roundTiesToEven_tie)
  have split: "(2::real) powi (e + 1) = 2 ^ 53 * ?u"
  proof -
    have "e + 1 = 53 + (e - 52)" by simp
    then have "(2::real) powi (e + 1) = 2 powi (53 + (e - 52))" by (rule arg_cong)
    also have "\<dots> = 2 powi 53 * 2 powi (e - 52)" by (rule power_int_add) simp
    finally show ?thesis by simp
  qed
  have "\<bar>x / ?u\<bar> < 2 ^ 53"
  proof -
    have "\<bar>x\<bar> < 2 ^ 53 * ?u" using assms(2) split by simp
    then have "\<bar>x\<bar> / ?u < 2 ^ 53" using upos by (simp add: pos_divide_less_eq)
    then show ?thesis using upos by (simp add: abs_divide) 
  qed
  moreover have "\<bar>x / ?u - of_int n\<bar> \<le> 1 / 2" using assms(5) by auto
  ultimately have "\<bar>real_of_int n\<bar> < 2 ^ 53 + 1" by linarith
  then have "real_of_int \<bar>n\<bar> < real_of_int (2 ^ 53 + 1)" by simp
  then have "\<bar>n\<bar> < 2 ^ 53 + 1" by (simp only: of_int_less_iff)
  then have "\<bar>n\<bar> \<le> 2 ^ 53" by simp
  then have "real_of_int \<bar>n\<bar> \<le> real_of_int (2 ^ 53)" by (simp only: of_int_le_iff)
  then have "\<bar>real_of_int n\<bar> \<le> 2 ^ 53" by simp
  then have "\<bar>real_of_int n\<bar> * ?u \<le> 2 ^ 53 * ?u"
    using upos by (intro mult_right_mono) auto
  then have ylt: "\<bar>y\<bar> \<le> 2 powi (e + 1)"
    using upos unfolding assms(6) split by (simp add: abs_mult)
  have "(2::real) powi (e + 1) < 2 powi 1024"
    using assms(4) by (intro power_int_strict_increasing) auto
  then have "\<bar>y\<bar> < overflowThreshold" using ylt by (simp add: overflowThreshold_def)
  then have "\<not> overflowThreshold \<le> y" "\<not> y \<le> - overflowThreshold" by linarith+
  then show ?thesis using x0 unfolding assms(6) by (simp add: rnd_def n u Let_def)
qed

text \<open>A rounding is never \<open>NaN\<close>, keeps the sign, and does not cross a power of two.\<close>

lemma ulp_pos: "0 < ulp x"
  unfolding ulp_def by (rule zero_less_power_int) simp

lemma rnd_not_NaN [simp]: "rnd x \<noteq> NaN"
  by (simp add: rnd_def Let_def)

lemma rnd_0 [simp]: "rnd 0 = Fin 0"
  by (simp add: rnd_def)

lemma overflowThreshold_pos: "0 < overflowThreshold"
  unfolding overflowThreshold_def by (rule zero_less_power_int) simp

lemma rnd_nonneg:
  assumes "0 \<le> x"
  shows "num_le (Fin 0) (rnd x)"
proof (cases "x = 0")
  case True
  then show ?thesis by simp
next
  case False
  have "0 \<le> x / ulp x" using assms ulp_pos [of x] by simp
  then have "0 \<le> roundTiesToEven (x / ulp x)"
    using roundTiesToEven_ge [of 0 "x / ulp x"] by simp
  then have "0 \<le> of_int (roundTiesToEven (x / ulp x)) * ulp x"
    using ulp_pos [of x] by simp
  then show ?thesis
    using False overflowThreshold_pos by (simp add: rnd_def Let_def)
qed

lemma rnd_nonpos:
  assumes "x \<le> 0"
  shows "num_le (rnd x) (Fin 0)"
proof (cases "x = 0")
  case True
  then show ?thesis by simp
next
  case False
  have "x / ulp x \<le> 0" using assms ulp_pos [of x] by (simp add: divide_nonpos_pos)
  then have "roundTiesToEven (x / ulp x) \<le> 0"
    using roundTiesToEven_le [of "x / ulp x" 0] by simp
  then have "of_int (roundTiesToEven (x / ulp x)) * ulp x \<le> 0"
    using ulp_pos [of x] by (simp add: mult_le_0_iff)
  then show ?thesis
    using False overflowThreshold_pos by (simp add: rnd_def Let_def)
qed

lemma ulp_ge_pow2:
  assumes "- 1022 \<le> k" and "2 powi k \<le> \<bar>x\<bar>"
  shows "ulp x = 2 powi (expo x - 52) \<and> k \<le> expo x"
proof -
  have "0 < (2::real) powi k" by (rule zero_less_power_int) simp
  then have "0 < \<bar>x\<bar>" using assms(2) by linarith
  then have x0: "x \<noteq> 0" by auto
  note b = expo_bounds [OF x0]
  have ke: "k \<le> expo x"
  proof (rule ccontr)
    assume "\<not> k \<le> expo x"
    then have "expo x + 1 \<le> k" by simp
    then have "(2::real) powi (expo x + 1) \<le> 2 powi k"
      by (intro power_int_increasing) auto
    with b assms(2) show False by linarith
  qed
  have m: "max (expo x) (- 1022) = expo x" using ke assms(1) by linarith
  show ?thesis unfolding ulp_def m using ke by blast
qed

lemma pow2_split: "(2::real) powi e = 2 ^ 52 * 2 powi (e - 52)"
proof -
  have "e = 52 + (e - 52)" by simp
  then have "(2::real) powi e = 2 powi (52 + (e - 52))" by (rule arg_cong)
  also have "\<dots> = 2 powi 52 * 2 powi (e - 52)" by (rule power_int_add) simp
  finally show ?thesis by simp
qed

lemma rnd_ge_pow2:
  assumes "- 1022 \<le> k" and "2 powi k \<le> x"
  shows "num_le (Fin (2 powi k)) (rnd x)"
proof -
  have kpos: "0 < (2::real) powi k" by (rule zero_less_power_int) simp
  then have xpos: "0 < x" using assms(2) by linarith
  then have ax: "\<bar>x\<bar> = x" by simp
  have u: "ulp x = 2 powi (expo x - 52)" and ke: "k \<le> expo x"
    using ulp_ge_pow2 [OF assms(1), of x] assms(2) ax by auto
  let ?u = "(2::real) powi (expo x - 52)"
  have upos: "0 < ?u" by (rule zero_less_power_int) simp
  have "2 powi (expo x) \<le> x" using expo_bounds [of x] xpos ax by auto
  then have "2 ^ 52 * ?u \<le> x" using pow2_split [of "expo x"] by simp
  then have "2 ^ 52 \<le> x / ?u" by (simp only: pos_le_divide_eq [OF upos])
  then have "real_of_int (2 ^ 52) \<le> x / ?u" by simp
  then have "2 ^ 52 \<le> roundTiesToEven (x / ?u)" by (rule roundTiesToEven_ge)
  then have "real_of_int (2 ^ 52) \<le> real_of_int (roundTiesToEven (x / ?u))"
    by (simp only: of_int_le_iff)
  then have "real_of_int (2 ^ 52) * ?u \<le> real_of_int (roundTiesToEven (x / ?u)) * ?u"
    using upos by (intro mult_right_mono) auto
  then have "2 ^ 52 * ?u \<le> real_of_int (roundTiesToEven (x / ?u)) * ?u" by simp
  then have "2 powi (expo x) \<le> real_of_int (roundTiesToEven (x / ?u)) * ?u"
    using pow2_split [of "expo x"] by simp
  moreover have "(2::real) powi k \<le> 2 powi (expo x)"
    using ke by (intro power_int_increasing) auto
  ultimately have y: "2 powi k \<le> real_of_int (roundTiesToEven (x / ?u)) * ?u" by linarith
  then have "\<not> real_of_int (roundTiesToEven (x / ?u)) * ?u \<le> - overflowThreshold"
    using kpos overflowThreshold_pos by linarith
  then show ?thesis using xpos y by (simp add: rnd_def Let_def u)
qed

lemma rnd_le_neg_pow2:
  assumes "- 1022 \<le> k" and "x \<le> - (2 powi k)"
  shows "num_le (rnd x) (Fin (- (2 powi k)))"
proof -
  have kpos: "0 < (2::real) powi k" by (rule zero_less_power_int) simp
  then have xneg: "x < 0" using assms(2) by linarith
  then have ax: "\<bar>x\<bar> = - x" by simp
  have u: "ulp x = 2 powi (expo x - 52)" and ke: "k \<le> expo x"
    using ulp_ge_pow2 [OF assms(1), of x] assms(2) ax by auto
  let ?u = "(2::real) powi (expo x - 52)"
  have upos: "0 < ?u" by (rule zero_less_power_int) simp
  have "2 powi (expo x) \<le> - x" using expo_bounds [of x] xneg ax by auto
  then have "2 ^ 52 * ?u \<le> - x" using pow2_split [of "expo x"] by simp
  then have "2 ^ 52 \<le> (- x) / ?u" by (simp only: pos_le_divide_eq [OF upos])
  then have "x / ?u \<le> real_of_int (- (2 ^ 52))" by simp
  then have "roundTiesToEven (x / ?u) \<le> - (2 ^ 52)" by (rule roundTiesToEven_le)
  then have "real_of_int (roundTiesToEven (x / ?u)) \<le> real_of_int (- (2 ^ 52))"
    by (simp only: of_int_le_iff)
  then have "real_of_int (roundTiesToEven (x / ?u)) * ?u \<le> real_of_int (- (2 ^ 52)) * ?u"
    using upos by (intro mult_right_mono) auto
  then have "real_of_int (roundTiesToEven (x / ?u)) * ?u \<le> - (2 ^ 52) * ?u" by simp
  then have "real_of_int (roundTiesToEven (x / ?u)) * ?u \<le> - (2 powi (expo x))"
    using pow2_split [of "expo x"] by simp
  moreover have "(2::real) powi k \<le> 2 powi (expo x)"
    using ke by (intro power_int_increasing) auto
  ultimately have y: "real_of_int (roundTiesToEven (x / ?u)) * ?u \<le> - (2 powi k)" by linarith
  then have "\<not> overflowThreshold \<le> real_of_int (roundTiesToEven (x / ?u)) * ?u"
    using kpos overflowThreshold_pos by linarith
  then show ?thesis using xneg y by (simp add: rnd_def Let_def u)
qed

section \<open>Auxiliary facts: strings and the tension engine\<close>

lemma num_div_10: "num_div (Fin a) (Fin 10) = rnd (a / 10)"
  by simp

lemma num_div_100: "num_div (Fin a) (Fin 100) = rnd (a / 100)"
  by simp

text \<open>\<open>includes_js\<close> is the substring test, and the two string cleaners run.\<close>

lemma startsWith_iff: "startsWith t kw \<longleftrightarrow> (\<exists>s. t = kw @ s)"
  by (induction t kw rule: startsWith.induct) auto

lemma includes_js_iff: "includes_js t kw \<longleftrightarrow> (\<exists>p s. t = p @ kw @ s)"
proof (induction t)
  case Nil
  then show ?case by simp
next
  case (Cons c cs)
  have "(\<exists>p s. c # cs = p @ kw @ s) \<longleftrightarrow>
        (\<exists>s. c # cs = kw @ s) \<or> (\<exists>p s. cs = p @ kw @ s)"
  proof
    assume "\<exists>p s. c # cs = p @ kw @ s"
    then obtain p s where eq: "c # cs = p @ kw @ s" by blast
    show "(\<exists>s. c # cs = kw @ s) \<or> (\<exists>p s. cs = p @ kw @ s)"
    proof (cases p)
      case Nil
      with eq show ?thesis by auto
    next
      case (Cons x p')
      with eq have "cs = p' @ kw @ s" by simp
      then show ?thesis by blast
    qed
  next
    assume "(\<exists>s. c # cs = kw @ s) \<or> (\<exists>p s. cs = p @ kw @ s)"
    then show "\<exists>p s. c # cs = p @ kw @ s"
    proof
      assume "\<exists>s. c # cs = kw @ s"
      then obtain s where "c # cs = [] @ kw @ s" by auto
      then show ?thesis by blast
    next
      assume "\<exists>p s. cs = p @ kw @ s"
      then obtain p s where "c # cs = (c # p) @ kw @ s" by auto
      then show ?thesis by blast
    qed
  qed
  with Cons show ?case by (simp add: startsWith_iff)
qed

lemma replaceFences_fenced: "replaceFences (str ''```json{}```'') = str ''{}''"
  by (simp add: str_def)

lemma trim_padded: "trim (str '' {} '') = str ''{}''"
  by (simp add: str_def trim_def isWhiteSpace_def)

lemma str_Nil: "str [] = []"
  by (simp add: str_def)

lemma str_Cons: "str (c # cs) = of_char c # str cs"
  by (simp add: str_def)

lemmas keyword_eval = some_def toLowerCase_def lowerUnits_def str_Nil str_Cons

lemma baseScore_other: "baseScore (str ''other'') = Fin 1"
  by (simp add: baseScore_def CATEGORY_SCORES_def keyword_eval)

lemma baseScore_military: "baseScore (str ''military'') = Fin 8"
  by (simp add: baseScore_def CATEGORY_SCORES_def keyword_eval)

lemma baseScore_diplomatic: "baseScore (str ''diplomatic'') = Fin 3"
  by (simp add: baseScore_def CATEGORY_SCORES_def keyword_eval)

lemma peace_strike_critical: "hasCritical (str ''peace strike'')"
  by (simp add: hasCritical_def CRITICAL_KEYWORDS_def keyword_eval)

lemma peace_strike_deescalation: "hasDeescalation (str ''peace strike'')"
  by (simp add: hasDeescalation_def DEESCALATION_KEYWORDS_def keyword_eval)

lemma missile_strike_critical: "hasCritical (str ''missile strike reported'')"
  by (simp add: hasCritical_def CRITICAL_KEYWORDS_def keyword_eval)

lemma missile_strike_no_deescalation: "\<not> hasDeescalation (str ''missile strike reported'')"
  by (simp add: hasDeescalation_def DEESCALATION_KEYWORDS_def keyword_eval)

lemma routine_no_critical: "\<not> hasCritical (str ''routine statement'')"
  by (simp add: hasCritical_def CRITICAL_KEYWORDS_def keyword_eval)

lemma routine_no_deescalation: "\<not> hasDeescalation (str ''routine statement'')"
  by (simp add: hasDeescalation_def DEESCALATION_KEYWORDS_def keyword_eval)

text \<open>The Kelvin sign lower-cases to \<open>k\<close>: \<open>ATTAC\<close>, U+212A is a critical title.\<close>

lemma kelvin_attack_critical: "hasCritical (str ''ATTAC'' @ [8490])"
  by (simp add: hasCritical_def CRITICAL_KEYWORDS_def keyword_eval)

section \<open>Auxiliary facts: the arithmetic of the engine\<close>

lemma lit_13_10: "lit (13 / 10) = Fin (5854679515581645 / 4503599627370496)"
  by (simp only: lit_def) (rule rnd_eval [where e = 0 and n = 5854679515581645]; simp)



lemma baseScore_cases:
  "(category' \<in> set inheritedKeys \<and> baseScore category' = NaN)
   \<or> (category' \<notin> set inheritedKeys \<and> (\<exists>w. baseScore category' = Fin w \<and> 1 \<le> w))"
  by (simp add: baseScore_def CATEGORY_SCORES_def inheritedKeys_def keyword_eval
      split: option.splits if_splits)

lemma baseScore_own:
  assumes "category' \<notin> set inheritedKeys"
  shows "\<exists>w. baseScore category' = Fin w \<and> 1 \<le> w"
  using baseScore_cases [of category'] assms by blast

lemma baseScore_inherited:
  assumes "category' \<in> set inheritedKeys"
  shows "baseScore category' = NaN"
  using baseScore_cases [of category'] assms by blast

lemma num_le_trans_Fin: "num_le (Fin b) p \<Longrightarrow> a \<le> b \<Longrightarrow> num_le (Fin a) p"
  by (cases p) auto

lemma num_le_neg_imp_lt: "num_le p (Fin b) \<Longrightarrow> b < 0 \<Longrightarrow> num_lt p (Fin 0)"
  by (cases p) auto

lemma num_lt_imp_le: "num_lt (Fin 0) p \<Longrightarrow> num_le (Fin 0) p"
  by (cases p) auto













text \<open>Bounds through the steps of \<open>calculateTensionDelta\<close>.\<close>

lemma rnd_ge:
  assumes "b = 2 powi k" and "- 1022 \<le> k" and "b \<le> x"
  shows "num_le (Fin b) (rnd x)"
  unfolding assms(1) by (rule rnd_ge_pow2 [OF assms(2)]) (use assms in simp)

lemma rnd_le:
  assumes "b = 2 powi k" and "- 1022 \<le> k" and "x \<le> - b"
  shows "num_le (rnd x) (Fin (- b))"
  unfolding assms(1) by (rule rnd_le_neg_pow2 [OF assms(2)]) (use assms in simp)

lemma step_div10_nonneg:
  assumes "num_le (Fin 0) a"
  shows "num_le (Fin 0) (num_div a (Fin 10))"
proof (cases a)
  case (Fin x)
  with assms have "0 \<le> x / 10" by simp
  then have "num_le (Fin 0) (rnd (x / 10))" by (rule rnd_nonneg)
  then show ?thesis by (simp add: Fin)
qed (use assms in \<open>simp_all add: signed_inf_def\<close>)

lemma step_add_half:
  assumes "num_le (Fin 0) t"
  shows "num_le (Fin (1 / 2)) (num_add (Fin (1 / 2)) t)"
proof (cases t)
  case (Fin y)
  with assms have "1 / 2 \<le> 1 / 2 + y" by simp
  then have "num_le (Fin (1 / 2)) (rnd (1 / 2 + y))"
    by (intro rnd_ge [where k = "- 1"]) simp_all
  then show ?thesis by (simp add: Fin)
qed (use assms in simp_all)

lemma step_base:
  assumes "category' \<notin> set inheritedKeys" and "num_le (Fin (1 / 2)) m"
  shows "num_le (Fin (1 / 2)) (num_mul (baseScore category') m)"
proof -
  obtain w where w: "baseScore category' = Fin w" "1 \<le> w"
    using baseScore_own [OF assms(1)] by blast
  show ?thesis
  proof (cases m)
    case (Fin z)
    with assms(2) have z: "1 / 2 \<le> z" by simp
    have "1 * (1 / 2) \<le> w * z" using w(2) z by (intro mult_mono) auto
    then have "1 / 2 \<le> w * z" by simp
    then have "num_le (Fin (1 / 2)) (rnd (w * z))"
      by (intro rnd_ge [where k = "- 1"]) simp_all
    then show ?thesis by (simp add: Fin w(1))
  next
    case PInf
    then show ?thesis using w by (simp add: signed_inf_def)
  qed (use assms in simp_all)
qed

lemma step_crit:
  assumes "num_le (Fin (1 / 32)) p"
  shows "num_le (Fin (1 / 32)) (num_mul p (lit (13 / 10)))"
proof (cases p)
  case (Fin z)
  with assms have z: "1 / 32 \<le> z" by simp
  have "(1 / 32) * 1 \<le> z * (5854679515581645 / 4503599627370496)"
    using z by (intro mult_mono) auto
  then have "1 / 32 \<le> z * (5854679515581645 / 4503599627370496)" by simp
  then have "num_le (Fin (1 / 32)) (rnd (z * (5854679515581645 / 4503599627370496)))"
    by (intro rnd_ge [where k = "- 5"]) simp_all
  then show ?thesis unfolding lit_13_10 Fin by (simp only: num_mul.simps)
qed (use assms in \<open>simp_all add: lit_13_10 signed_inf_def\<close>)

lemma step_deesc:
  assumes "num_le (Fin (1 / 32)) d"
  shows "num_le (num_mul d (Fin (- (1 / 2)))) (Fin (- (1 / 64)))"
proof (cases d)
  case (Fin z)
  with assms have "z * (- (1 / 2)) \<le> - (1 / 64)" by simp
  then have "num_le (rnd (z * (- (1 / 2)))) (Fin (- (1 / 64)))"
    by (intro rnd_le [where k = "- 6"]) simp_all
  then show ?thesis unfolding Fin by (simp only: num_mul.simps)
qed (use assms in \<open>simp_all add: signed_inf_def\<close>)

lemma step_100:
  assumes "num_le d (Fin (- (1 / 64)))"
  shows "num_le (num_mul d (Fin 100)) (Fin (- 1))"
proof (cases d)
  case (Fin z)
  with assms have "z * 100 \<le> - 1" by simp
  then have "num_le (rnd (z * 100)) (Fin (- 1))"
    by (intro rnd_le [where k = 0]) simp_all
  then show ?thesis unfolding Fin by (simp only: num_mul.simps)
qed (use assms in \<open>simp_all add: signed_inf_def\<close>)

lemma step_round:
  assumes "num_le x (Fin (- 1))"
  shows "num_le (Math_round x) (Fin (- 1))"
proof (cases x)
  case (Fin z)
  with assms have "z + 1 / 2 < 0" by simp
  then have "\<lfloor>z + 1 / 2\<rfloor> \<le> - 1" by linarith
  then have "real_of_int \<lfloor>z + 1 / 2\<rfloor> \<le> real_of_int (- 1)" by (simp only: of_int_le_iff)
  then show ?thesis by (simp add: Fin)
qed (use assms in simp_all)

lemma step_div100:
  assumes "num_le r (Fin (- 1))"
  shows "num_le (num_div r (Fin 100)) (Fin (- (1 / 128)))"
proof (cases r)
  case (Fin n)
  with assms have "n / 100 \<le> - (1 / 128)" by simp
  then have "num_le (rnd (n / 100)) (Fin (- (1 / 128)))"
    by (intro rnd_le [where k = "- 7"]) simp_all
  then show ?thesis by (simp add: Fin)
qed (use assms in \<open>simp_all add: signed_inf_def\<close>)

text \<open>The same steps, keeping the sign only.\<close>

lemma sign_crit:
  assumes "num_le (Fin 0) p"
  shows "num_le (Fin 0) (num_mul p (lit (13 / 10)))"
proof (cases p)
  case (Fin z)
  with assms have "0 \<le> z * (5854679515581645 / 4503599627370496)" by simp
  then have "num_le (Fin 0) (rnd (z * (5854679515581645 / 4503599627370496)))"
    by (rule rnd_nonneg)
  then show ?thesis unfolding lit_13_10 Fin by (simp only: num_mul.simps)
qed (use assms in \<open>simp_all add: lit_13_10 signed_inf_def\<close>)

lemma sign_deesc:
  assumes "num_le (Fin 0) d"
  shows "num_le (num_mul d (Fin (- (1 / 2)))) (Fin 0)"
proof (cases d)
  case (Fin z)
  with assms have "z * (- (1 / 2)) \<le> 0" by simp
  then have "num_le (rnd (z * (- (1 / 2)))) (Fin 0)" by (rule rnd_nonpos)
  then show ?thesis unfolding Fin by (simp only: num_mul.simps)
qed (use assms in \<open>simp_all add: signed_inf_def\<close>)

lemma sign_100:
  assumes "num_le d (Fin 0)"
  shows "num_le (num_mul d (Fin 100)) (Fin 0)"
proof (cases d)
  case (Fin z)
  with assms have "z * 100 \<le> 0" by simp
  then have "num_le (rnd (z * 100)) (Fin 0)" by (rule rnd_nonpos)
  then show ?thesis unfolding Fin by (simp only: num_mul.simps)
qed (use assms in \<open>simp_all add: signed_inf_def\<close>)

lemma sign_round:
  assumes "num_le x (Fin 0)"
  shows "num_le (Math_round x) (Fin 0)"
proof (cases x)
  case (Fin z)
  with assms have "z + 1 / 2 < 1" by simp
  then have "\<lfloor>z + 1 / 2\<rfloor> \<le> 0" by linarith
  then have "real_of_int \<lfloor>z + 1 / 2\<rfloor> \<le> real_of_int 0" by (simp only: of_int_le_iff)
  then show ?thesis by (simp add: Fin)
qed (use assms in simp_all)

lemma sign_div100:
  assumes "num_le r (Fin 0)"
  shows "num_le (num_div r (Fin 100)) (Fin 0)"
proof (cases r)
  case (Fin n)
  with assms have "n / 100 \<le> 0" by simp
  then have "num_le (rnd (n / 100)) (Fin 0)" by (rule rnd_nonpos)
  then show ?thesis by (simp add: Fin)
qed (use assms in \<open>simp_all add: signed_inf_def\<close>)

section \<open>The engine on concrete inputs\<close>

lemma delta_military_10:
  "calculateTensionDelta (str ''military'') (Fin 10) (str ''missile strike reported'') = lit (156 / 10)"
proof -
  have s1: "num_div (Fin 10) (Fin 10) = Fin 1"
    by (simp only: num_div_10) (rule rnd_eval [where e = 0 and n = 4503599627370496]; simp)
  have s2: "num_add (Fin (1 / 2)) (Fin 1) = Fin (3 / 2)"
    by (simp only: num_add.simps) (rule rnd_eval [where e = 0 and n = 6755399441055744]; simp)
  have s3: "num_mul (Fin 8) (Fin (3 / 2)) = Fin 12"
    by (simp only: num_mul.simps) (rule rnd_eval [where e = 3 and n = 6755399441055744]; simp)
  have s4: "lit (13 / 10) = Fin (5854679515581645 / 4503599627370496)"
    by (simp only: lit_def) (rule rnd_eval [where e = 0 and n = 5854679515581645]; simp)
  have s5: "num_mul (Fin 12) (Fin (5854679515581645 / 4503599627370496)) = Fin (2195504818343117 / 140737488355328)"
    by (simp only: num_mul.simps) (rule rnd_eval [where e = 3 and n = 8782019273372468]; simp)
  have s6: "num_mul (Fin (2195504818343117 / 140737488355328)) (Fin 100) = Fin (6860952557322241 / 4398046511104)"
    by (simp only: num_mul.simps) (rule rnd_eval [where e = 10 and n = 6860952557322241]; simp)
  have s7: "Math_round (Fin (6860952557322241 / 4398046511104)) = Fin 1560"
    by simp
  have s8: "num_div (Fin 1560) (Fin 100) = Fin (8782019273372467 / 562949953421312)"
    by (simp only: num_div_100) (rule rnd_eval [where e = 3 and n = 8782019273372467]; simp)
  have s9: "lit (156 / 10) = Fin (8782019273372467 / 562949953421312)"
    by (simp only: lit_def) (rule rnd_eval [where e = 3 and n = 8782019273372467]; simp)
  show ?thesis
    by (simp only: calculateTensionDelta_def Let_def baseScore_military missile_strike_critical missile_strike_no_deescalation if_True if_False s1 s2 s3 s4 s5 s6 s7 s8 s9)
qed

lemma delta_other_10_both:
  "calculateTensionDelta (str ''other'') (Fin 10) (str ''peace strike'') = lit (- (98 / 100))"
proof -
  have s1: "num_div (Fin 10) (Fin 10) = Fin 1"
    by (simp only: num_div_10) (rule rnd_eval [where e = 0 and n = 4503599627370496]; simp)
  have s2: "num_add (Fin (1 / 2)) (Fin 1) = Fin (3 / 2)"
    by (simp only: num_add.simps) (rule rnd_eval [where e = 0 and n = 6755399441055744]; simp)
  have s3: "num_mul (Fin 1) (Fin (3 / 2)) = Fin (3 / 2)"
    by (simp only: num_mul.simps) (rule rnd_eval [where e = 0 and n = 6755399441055744]; simp)
  have s4: "lit (13 / 10) = Fin (5854679515581645 / 4503599627370496)"
    by (simp only: lit_def) (rule rnd_eval [where e = 0 and n = 5854679515581645]; simp)
  have s5: "num_mul (Fin (3 / 2)) (Fin (5854679515581645 / 4503599627370496)) = Fin (2195504818343117 / 1125899906842624)"
    by (simp only: num_mul.simps) (rule rnd_eval [where e = 0 and n = 8782019273372468]; simp)
  have s6: "num_mul (Fin (2195504818343117 / 1125899906842624)) (Fin (- (1 / 2))) = Fin (- (2195504818343117 / 2251799813685248))"
    by (simp only: num_mul.simps) (rule rnd_eval [where e = "- 1" and n = "- 8782019273372468"]; simp)
  have s7: "num_mul (Fin (- (2195504818343117 / 2251799813685248))) (Fin 100) = Fin (- (6860952557322241 / 70368744177664))"
    by (simp only: num_mul.simps) (rule rnd_eval [where e = 6 and n = "- 6860952557322241"]; simp)
  have s8: "Math_round (Fin (- (6860952557322241 / 70368744177664))) = Fin (- 98)"
    by simp
  have s9: "num_div (Fin (- 98)) (Fin 100) = Fin (- (2206763817411543 / 2251799813685248))"
    by (simp only: num_div_100) (rule rnd_eval [where e = "- 1" and n = "- 8827055269646172"]; simp)
  have s10: "lit (- (98 / 100)) = Fin (- (2206763817411543 / 2251799813685248))"
    by (simp only: lit_def) (rule rnd_eval [where e = "- 1" and n = "- 8827055269646172"]; simp)
  show ?thesis
    by (simp only: calculateTensionDelta_def Let_def baseScore_other peace_strike_critical peace_strike_deescalation if_True if_False s1 s2 s3 s4 s5 s6 s7 s8 s9 s10)
qed

lemma baseProduct_other_tiny:
  "num_mul (baseScore (str ''other'')) (num_add (Fin (1 / 2)) (num_div (Fin (- (635 / 128))) (Fin 10))) = Fin (1 / 256)"
proof -
  have s1: "num_div (Fin (- (635 / 128))) (Fin 10) = Fin (- (127 / 256))"
    by (simp only: num_div_10) (rule rnd_eval [where e = "- 2" and n = "- 8936830510563328"]; simp)
  have s2: "num_add (Fin (1 / 2)) (Fin (- (127 / 256))) = Fin (1 / 256)"
    by (simp only: num_add.simps) (rule rnd_eval [where e = "- 8" and n = 4503599627370496]; simp)
  have s3: "num_mul (Fin 1) (Fin (1 / 256)) = Fin (1 / 256)"
    by (simp only: num_mul.simps) (rule rnd_eval [where e = "- 8" and n = 4503599627370496]; simp)
  show ?thesis
    by (simp only: baseScore_other s1 s2 s3)
qed

lemma delta_other_tiny_both:
  "calculateTensionDelta (str ''other'') (Fin (- (635 / 128))) (str ''peace strike'') = Fin 0"
proof -
  have s1: "num_div (Fin (- (635 / 128))) (Fin 10) = Fin (- (127 / 256))"
    by (simp only: num_div_10) (rule rnd_eval [where e = "- 2" and n = "- 8936830510563328"]; simp)
  have s2: "num_add (Fin (1 / 2)) (Fin (- (127 / 256))) = Fin (1 / 256)"
    by (simp only: num_add.simps) (rule rnd_eval [where e = "- 8" and n = 4503599627370496]; simp)
  have s3: "num_mul (Fin 1) (Fin (1 / 256)) = Fin (1 / 256)"
    by (simp only: num_mul.simps) (rule rnd_eval [where e = "- 8" and n = 4503599627370496]; simp)
  have s4: "lit (13 / 10) = Fin (5854679515581645 / 4503599627370496)"
    by (simp only: lit_def) (rule rnd_eval [where e = 0 and n = 5854679515581645]; simp)
  have s5: "num_mul (Fin (1 / 256)) (Fin (5854679515581645 / 4503599627370496)) = Fin (5854679515581645 / 1152921504606846976)"
    by (simp only: num_mul.simps) (rule rnd_eval [where e = "- 8" and n = 5854679515581645]; simp)
  have s6: "num_mul (Fin (5854679515581645 / 1152921504606846976)) (Fin (- (1 / 2))) = Fin (- (5854679515581645 / 2305843009213693952))"
    by (simp only: num_mul.simps) (rule rnd_eval [where e = "- 9" and n = "- 5854679515581645"]; simp)
  have s7: "num_mul (Fin (- (5854679515581645 / 2305843009213693952))) (Fin 100) = Fin (- (65 / 256))"
    by (simp only: num_mul.simps) (rule rnd_eval [where e = "- 2" and n = "- 4573968371548160"]; simp)
  have s8: "Math_round (Fin (- (65 / 256))) = Fin 0"
    by simp
  have s9: "num_div (Fin 0) (Fin 100) = Fin 0"
    by (simp add: num_div_100)
  show ?thesis
    by (simp only: calculateTensionDelta_def Let_def baseScore_other peace_strike_critical peace_strike_deescalation if_True if_False s1 s2 s3 s4 s5 s6 s7 s8 s9)
qed

lemma delta_military_15:
  "calculateTensionDelta (str ''military'') (Fin 15) (str ''missile strike reported'') = lit (208 / 10)"
proof -
  have s1: "num_div (Fin 15) (Fin 10) = Fin (3 / 2)"
    by (simp only: num_div_10) (rule rnd_eval [where e = 0 and n = 6755399441055744]; simp)
  have s2: "num_add (Fin (1 / 2)) (Fin (3 / 2)) = Fin 2"
    by (simp only: num_add.simps) (rule rnd_eval [where e = 1 and n = 4503599627370496]; simp)
  have s3: "num_mul (Fin 8) (Fin 2) = Fin 16"
    by (simp only: num_mul.simps) (rule rnd_eval [where e = 4 and n = 4503599627370496]; simp)
  have s4: "lit (13 / 10) = Fin (5854679515581645 / 4503599627370496)"
    by (simp only: lit_def) (rule rnd_eval [where e = 0 and n = 5854679515581645]; simp)
  have s5: "num_mul (Fin 16) (Fin (5854679515581645 / 4503599627370496)) = Fin (5854679515581645 / 281474976710656)"
    by (simp only: num_mul.simps) (rule rnd_eval [where e = 4 and n = 5854679515581645]; simp)
  have s6: "num_mul (Fin (5854679515581645 / 281474976710656)) (Fin 100) = Fin 2080"
    by (simp only: num_mul.simps) (rule rnd_eval [where e = 11 and n = 4573968371548160]; simp)
  have s7: "Math_round (Fin 2080) = Fin 2080"
    by simp
  have s8: "num_div (Fin 2080) (Fin 100) = Fin (5854679515581645 / 281474976710656)"
    by (simp only: num_div_100) (rule rnd_eval [where e = 4 and n = 5854679515581645]; simp)
  have s9: "lit (208 / 10) = Fin (5854679515581645 / 281474976710656)"
    by (simp only: lit_def) (rule rnd_eval [where e = 4 and n = 5854679515581645]; simp)
  show ?thesis
    by (simp only: calculateTensionDelta_def Let_def baseScore_military missile_strike_critical missile_strike_no_deescalation if_True if_False s1 s2 s3 s4 s5 s6 s7 s8 s9)
qed

lemma delta_routine:
  "calculateTensionDelta (str ''diplomatic'') (Fin 2) (str ''routine statement'') = lit (21 / 10)"
proof -
  have s1: "num_div (Fin 2) (Fin 10) = Fin (3602879701896397 / 18014398509481984)"
    by (simp only: num_div_10) (rule rnd_eval [where e = "- 3" and n = 7205759403792794]; simp)
  have s2: "num_add (Fin (1 / 2)) (Fin (3602879701896397 / 18014398509481984)) = Fin (3152519739159347 / 4503599627370496)"
    by (simp only: num_add.simps) (rule rnd_eval [where e = "- 1" and n = 6305039478318694]; simp)
  have s3: "num_mul (Fin 3) (Fin (3152519739159347 / 4503599627370496)) = Fin (1182194902184755 / 562949953421312)"
    by (simp only: num_mul.simps) (rule rnd_eval [where e = 1 and n = 4728779608739020]; simp)
  have s4: "num_mul (Fin (1182194902184755 / 562949953421312)) (Fin 100) = Fin (7388718138654719 / 35184372088832)"
    by (simp only: num_mul.simps) (rule rnd_eval [where e = 7 and n = 7388718138654719]; simp)
  have s5: "Math_round (Fin (7388718138654719 / 35184372088832)) = Fin 210"
    by simp
  have s6: "num_div (Fin 210) (Fin 100) = Fin (4728779608739021 / 2251799813685248)"
    by (simp only: num_div_100) (rule rnd_eval [where e = 1 and n = 4728779608739021]; simp)
  have s7: "lit (21 / 10) = Fin (4728779608739021 / 2251799813685248)"
    by (simp only: lit_def) (rule rnd_eval [where e = 1 and n = 4728779608739021]; simp)
  show ?thesis
    by (simp only: calculateTensionDelta_def Let_def baseScore_diplomatic routine_no_critical routine_no_deescalation if_True if_False s1 s2 s3 s4 s5 s6 s7)
qed

lemma apply_75_routine_fin:
  "applyTensionDelta (Fin 75) (Fin (4728779608739021 / 2251799813685248)) = Fin (5401504803077489 / 70368744177664)"
proof -
  have s1: "num_add (Fin 75) (Fin (4728779608739021 / 2251799813685248)) = Fin (2712715088048947 / 35184372088832)"
    by (simp only: num_add.simps) (rule rnd_eval [where e = 6 and n = 5425430176097894]; simp)
  have s2: "num_sub (Fin 60) (Fin (2712715088048947 / 35184372088832)) = Fin (- (601652762719027 / 35184372088832))"
    by (simp only: num_sub_def num_neg.simps num_add.simps) (rule rnd_eval [where e = 4 and n = "- 4813222101752216"]; simp)
  have s3: "lit (2 / 100) = Fin (5764607523034235 / 288230376151711744)"
    by (simp only: lit_def) (rule rnd_eval [where e = "- 6" and n = 5764607523034235]; simp)
  have s4: "num_mul (Fin (- (601652762719027 / 35184372088832))) (Fin (5764607523034235 / 288230376151711744)) = Fin (- (6160924290242837 / 18014398509481984))"
    by (simp only: num_mul.simps) (rule rnd_eval [where e = "- 2" and n = "- 6160924290242837"]; simp)
  have s5: "num_add (Fin (2712715088048947 / 35184372088832)) (Fin (- (6160924290242837 / 18014398509481984))) = Fin (5401364065589133 / 70368744177664)"
    by (simp only: num_add.simps) (rule rnd_eval [where e = 6 and n = 5401364065589133]; simp)
  have s6: "num_mul (Fin (5401364065589133 / 70368744177664)) (Fin 100) = Fin (2109907838120755 / 274877906944)"
    by (simp only: num_mul.simps) (rule rnd_eval [where e = 12 and n = 8439631352483020]; simp)
  have s7: "Math_round (Fin (2109907838120755 / 274877906944)) = Fin 7676"
    by simp
  have s8: "num_div (Fin 7676) (Fin 100) = Fin (5401504803077489 / 70368744177664)"
    by (simp only: num_div_100) (rule rnd_eval [where e = 6 and n = 5401504803077489]; simp)
  have s9: "Math_max (Fin 0) (Fin (5401504803077489 / 70368744177664)) = Fin (5401504803077489 / 70368744177664)"
    by (simp add: Math_max_def)
  have s10: "Math_min (Fin 100) (Fin (5401504803077489 / 70368744177664)) = Fin (5401504803077489 / 70368744177664)"
    by (simp add: Math_min_def)
  show ?thesis
    by (simp only: applyTensionDelta_def Let_def s1 s2 s3 s4 s5 s6 s7 s8 s9 s10)
qed

lemma lit_21_10: "lit (21 / 10) = Fin (4728779608739021 / 2251799813685248)"
  by (simp only: lit_def) (rule rnd_eval [where e = 1 and n = 4728779608739021]; simp)

lemma lit_7676_100: "lit (7676 / 100) = Fin (5401504803077489 / 70368744177664)"
  by (simp only: lit_def) (rule rnd_eval [where e = 6 and n = 5401504803077489]; simp)

lemma apply_75_routine: "applyTensionDelta (Fin 75) (lit (21 / 10)) = lit (7676 / 100)"
  by (simp only: lit_21_10 lit_7676_100 apply_75_routine_fin)




lemma baseProduct_other_10:
  "num_mul (baseScore (str ''other'')) (num_add (Fin (1 / 2)) (num_div (Fin 10) (Fin 10))) = Fin (3 / 2)"
proof -
  have s1: "num_div (Fin 10) (Fin 10) = Fin 1"
    by (simp only: num_div_10) (rule rnd_eval [where e = 0 and n = 4503599627370496]; simp)
  have s2: "num_add (Fin (1 / 2)) (Fin 1) = Fin (3 / 2)"
    by (simp only: num_add.simps) (rule rnd_eval [where e = 0 and n = 6755399441055744]; simp)
  have s3: "num_mul (Fin 1) (Fin (3 / 2)) = Fin (3 / 2)"
    by (simp only: num_mul.simps) (rule rnd_eval [where e = 0 and n = 6755399441055744]; simp)
  show ?thesis
    by (simp only: baseScore_other s1 s2 s3)
qed

text \<open>The rounding at work: \<open>0.1 + 0.2\<close> is the double above \<open>0.3\<close>.\<close>

lemma sum_of_tenths:
  "lit (1 / 10) = Fin (3602879701896397 / 36028797018963968)"
  "lit (2 / 10) = Fin (3602879701896397 / 18014398509481984)"
  "lit (3 / 10) = Fin (5404319552844595 / 18014398509481984)"
  "num_add (lit (1 / 10)) (lit (2 / 10)) = Fin (1351079888211149 / 4503599627370496)"
  "num_add (lit (1 / 10)) (lit (2 / 10)) \<noteq> lit (3 / 10)"
proof -
  have s1: "lit (1 / 10) = Fin (3602879701896397 / 36028797018963968)"
    by (simp only: lit_def) (rule rnd_eval [where e = "- 4" and n = 7205759403792794]; simp)
  have s2: "lit (2 / 10) = Fin (3602879701896397 / 18014398509481984)"
    by (simp only: lit_def) (rule rnd_eval [where e = "- 3" and n = 7205759403792794]; simp)
  have s3: "lit (3 / 10) = Fin (5404319552844595 / 18014398509481984)"
    by (simp only: lit_def) (rule rnd_eval [where e = "- 2" and n = 5404319552844595]; simp)
  have s4: "num_add (Fin (3602879701896397 / 36028797018963968)) (Fin (3602879701896397 / 18014398509481984)) = Fin (1351079888211149 / 4503599627370496)"
    by (simp only: num_add.simps) (rule rnd_eval [where e = "- 2" and n = 5404319552844596]; simp)
  show "lit (1 / 10) = Fin (3602879701896397 / 36028797018963968)" by (rule s1)
  show "lit (2 / 10) = Fin (3602879701896397 / 18014398509481984)" by (rule s2)
  show "lit (3 / 10) = Fin (5404319552844595 / 18014398509481984)" by (rule s3)
  show "num_add (lit (1 / 10)) (lit (2 / 10)) = Fin (1351079888211149 / 4503599627370496)"
    by (simp only: s1 s2 s4)
  show "num_add (lit (1 / 10)) (lit (2 / 10)) \<noteq> lit (3 / 10)"
    by (simp only: s1 s2 s3 s4) simp
qed

text \<open>The doubles that the decimal literals of the statements below denote.\<close>

lemma literal_values:
  "lit (156 / 10) = Fin (8782019273372467 / 562949953421312)"
  "lit (- (98 / 100)) = Fin (- (2206763817411543 / 2251799813685248))"
  "lit (208 / 10) = Fin (5854679515581645 / 281474976710656)"
  "lit (7494 / 100) = Fin (1318358422168535 / 17592186044416)"
proof -
  have s1: "lit (156 / 10) = Fin (8782019273372467 / 562949953421312)"
    by (simp only: lit_def) (rule rnd_eval [where e = 3 and n = 8782019273372467]; simp)
  have s2: "lit (- (98 / 100)) = Fin (- (2206763817411543 / 2251799813685248))"
    by (simp only: lit_def) (rule rnd_eval [where e = "- 1" and n = "- 8827055269646172"]; simp)
  have s3: "lit (208 / 10) = Fin (5854679515581645 / 281474976710656)"
    by (simp only: lit_def) (rule rnd_eval [where e = 4 and n = 5854679515581645]; simp)
  have s4: "lit (7494 / 100) = Fin (1318358422168535 / 17592186044416)"
    by (simp only: lit_def) (rule rnd_eval [where e = 6 and n = 5273433688674140]; simp)
  show "lit (156 / 10) = Fin (8782019273372467 / 562949953421312)" by (rule s1)
  show "lit (- (98 / 100)) = Fin (- (2206763817411543 / 2251799813685248))" by (rule s2)
  show "lit (208 / 10) = Fin (5854679515581645 / 281474976710656)" by (rule s3)
  show "lit (7494 / 100) = Fin (1318358422168535 / 17592186044416)" by (rule s4)
qed

section \<open>Tension engine: properties\<close>

text \<open>
  C6, as the code has it. For a title whose lower-cased form contains a critical keyword
  and a de-escalation keyword, \<open>calculateTensionDelta\<close> applies both multipliers in
  sequence: the result is the base weight times \<open>0.5 + aiScore / 10\<close>, times 1.3, times
  \<open>-0.5\<close>, rounded to two decimals, each operation on doubles. The result is negative
  whenever the base product is at least 1/32, hence for every \<open>aiScore \<ge> 0\<close> and every
  category that does not name an inherited property of the weight table (for such a
  name the result is \<open>NaN\<close>); for any positive base product it is at most 0.
\<close>

theorem both_multipliers_in_sequence:
  assumes "hasCritical title'" and "hasDeescalation title'"
  shows "calculateTensionDelta category' aiScore title' =
           num_div (Math_round (num_mul
             (num_mul (num_mul (baseProduct category' aiScore) (lit (13 / 10))) (Fin (- (1 / 2))))
             (Fin 100))) (Fin 100)
         \<and> (num_le (Fin (1 / 32)) (baseProduct category' aiScore)
              \<longrightarrow> num_lt (calculateTensionDelta category' aiScore title') (Fin 0))
         \<and> (num_le (Fin 0) aiScore \<and> category' \<notin> set inheritedKeys
              \<longrightarrow> num_lt (calculateTensionDelta category' aiScore title') (Fin 0))
         \<and> (category' \<in> set inheritedKeys
              \<longrightarrow> calculateTensionDelta category' aiScore title' = NaN)
         \<and> (num_lt (Fin 0) (baseProduct category' aiScore)
              \<longrightarrow> num_le (calculateTensionDelta category' aiScore title') (Fin 0))"
proof -
  let ?p = "baseProduct category' aiScore"
  let ?r = "num_div (Math_round (num_mul
             (num_mul (num_mul ?p (lit (13 / 10))) (Fin (- (1 / 2)))) (Fin 100))) (Fin 100)"
  have eq: "calculateTensionDelta category' aiScore title' = ?r"
    by (simp only: calculateTensionDelta_def Let_def assms if_True)
  have neg: "num_lt ?r (Fin 0)" if "num_le (Fin (1 / 32)) ?p"
  proof -
    have "num_le ?r (Fin (- (1 / 128)))"
      by (intro step_div100 step_round step_100 step_deesc step_crit that)
    then show ?thesis by (rule num_le_neg_imp_lt) simp
  qed
  have big: "num_le (Fin (1 / 32)) ?p"
    if "num_le (Fin 0) aiScore \<and> category' \<notin> set inheritedKeys"
  proof -
    have "num_le (Fin (1 / 2)) ?p"
      using that by (intro step_base step_add_half step_div10_nonneg) simp_all
    then show ?thesis by (rule num_le_trans_Fin) simp
  qed
  have nan: "?r = NaN" if "category' \<in> set inheritedKeys"
    by (simp add: baseScore_inherited [OF that])
  have nonpos: "num_le ?r (Fin 0)" if "num_lt (Fin 0) ?p"
    by (intro sign_div100 sign_round sign_100 sign_deesc sign_crit num_lt_imp_le that)
  show ?thesis unfolding eq using neg big nan nonpos by blast
qed

theorem both_multipliers_in_sequence_witness:
  "hasCritical (str ''peace strike'') \<and> hasDeescalation (str ''peace strike'')
   \<and> calculateTensionDelta (str ''other'') (Fin 10) (str ''peace strike'') = lit (- (98 / 100))
   \<and> baseProduct (str ''other'') (Fin 10) = Fin (3 / 2)
   \<and> num_le (Fin (1 / 32)) (Fin (3 / 2)) \<and> num_lt (Fin 0) (Fin (3 / 2))
   \<and> num_le (Fin 0) (Fin 10) \<and> str ''other'' \<notin> set inheritedKeys
   \<and> num_lt (calculateTensionDelta (str ''other'') (Fin 10) (str ''peace strike'')) (Fin 0)
   \<and> num_le (calculateTensionDelta (str ''other'') (Fin 10) (str ''peace strike'')) (Fin 0)
   \<and> str ''constructor'' \<in> set inheritedKeys
   \<and> calculateTensionDelta (str ''constructor'') (Fin 10) (str ''peace strike'') = NaN"
proof -
  note th = both_multipliers_in_sequence [OF peace_strike_critical peace_strike_deescalation,
      of "str ''other''" "Fin 10"]
  note tc = both_multipliers_in_sequence [OF peace_strike_critical peace_strike_deescalation,
      of "str ''constructor''" "Fin 10"]
  have pos: "num_le (Fin 0) (Fin 10)" by simp
  have own: "str ''other'' \<notin> set inheritedKeys"
    by (simp add: inheritedKeys_def keyword_eval)
  have inh: "str ''constructor'' \<in> set inheritedKeys"
    by (simp add: inheritedKeys_def)
  have big: "num_le (Fin (1 / 32)) (Fin (3 / 2))" and gt: "num_lt (Fin 0) (Fin (3 / 2))"
    by simp_all
  have gt': "num_lt (Fin 0) (baseProduct (str ''other'') (Fin 10))"
    by (simp only: baseProduct_other_10 gt)
  have lt: "num_lt (calculateTensionDelta (str ''other'') (Fin 10) (str ''peace strike'')) (Fin 0)"
    using th pos own by blast
  have le: "num_le (calculateTensionDelta (str ''other'') (Fin 10) (str ''peace strike'')) (Fin 0)"
    using th gt' by blast
  have nan: "calculateTensionDelta (str ''constructor'') (Fin 10) (str ''peace strike'') = NaN"
    using tc inh by blast
  show ?thesis
    using peace_strike_critical peace_strike_deescalation delta_other_10_both
      baseProduct_other_10 big gt pos own inh lt le nan
    by blast
qed

text \<open>
  C6 as stated fails: with category \<open>other\<close> and \<open>aiScore = -4.9609375\<close> the base product
  is 1/256, positive, and the title \<open>peace strike\<close> matches both lists, yet the rounded
  result is 0, not a negative number.
\<close>

theorem both_multipliers_counterexample:
  "hasCritical (str ''peace strike'') \<and> hasDeescalation (str ''peace strike'')
   \<and> baseProduct (str ''other'') (Fin (- (635 / 128))) = Fin (1 / 256)
   \<and> num_lt (Fin 0) (Fin (1 / 256))
   \<and> calculateTensionDelta (str ''other'') (Fin (- (635 / 128))) (str ''peace strike'') = Fin 0
   \<and> \<not> num_lt (Fin 0) (Fin 0)"
  using peace_strike_critical peace_strike_deescalation baseProduct_other_tiny
    delta_other_tiny_both by simp

text \<open>
  C7. \<open>calculateTensionDelta('military', 10, 'missile strike reported')\<close> is exactly
  15.6, the double that literal denotes: base weight 8, multiplier 1.5, critical-keyword
  factor 1.3, no de-escalation factor, rounded to two decimals.
\<close>

theorem military_missile_strike_delta:
  "calculateTensionDelta (str ''military'') (Fin 10) (str ''missile strike reported'')
     = lit (156 / 10)
   \<and> baseScore (str ''military'') = Fin 8
   \<and> hasCritical (str ''missile strike reported'')
   \<and> \<not> hasDeescalation (str ''missile strike reported'')"
  using delta_military_10 baseScore_military missile_strike_critical
    missile_strike_no_deescalation by blast




section \<open>Auxiliary facts about the orchestrator\<close>

lemma insertedEvents_append:
  "insertedEvents (xs @ ys) = insertedEvents xs @ insertedEvents ys"
  by (induction xs rule: insertedEvents.induct) simp_all

lemma insertedTensions_append:
  "insertedTensions (xs @ ys) = insertedTensions xs @ insertedTensions ys"
  by (induction xs rule: insertedTensions.induct) simp_all

lemma classify_no_inserts:
  "insertedEvents (snd (classifyNewsEvent w t d)) = []"
  "insertedTensions (snd (classifyNewsEvent w t d)) = []"
  by (simp_all add: classifyNewsEvent_def Let_def split: sum.splits option.splits)

lemma translate_no_inserts:
  "insertedEvents (snd (translateNewsTitle w t)) = []"
  "insertedTensions (snd (translateNewsTitle w t)) = []"
  by (simp_all add: translateNewsTitle_def Let_def split: sum.splits option.splits)

lemma processArticle_no_tension_insert:
  "insertedTensions (snd (snd (processArticle w a t al))) = []"
  by (simp add: processArticle_def Let_def case_prod_beta insertedTensions_append
      classify_no_inserts translate_no_inserts split: sum.splits bool.splits json.splits)

lemma processArticles_no_tension_insert:
  "insertedTensions (snd (snd (processArticles w as t al))) = []"
proof (induction as arbitrary: t al)
  case Nil
  then show ?case by simp
next
  case (Cons a as)
  show ?case
    using Cons.IH processArticle_no_tension_insert [of w a t al]
    by (simp add: insertedTensions_append case_prod_beta Let_def)
qed

lemma processAlert_no_tension_insert: "insertedTensions (processAlert w d) = []"
  by (simp add: processAlert_def Let_def split: sum.splits option.splits)

lemma alerts_no_tension_insert: "insertedTensions (concat (map (processAlert w) ds)) = []"
  by (induction ds) (simp_all add: insertedTensions_append processAlert_no_tension_insert)

lemma payload_fields:
  "ev_category (newsEventPayload a c tr d) = category c"
  "ev_impact_score (newsEventPayload a c tr d) = impact_score c"
  "ev_is_critical (newsEventPayload a c tr d) =
     (is_critical c \<or> shouldTriggerAlert (withImpactScore a (impact_score c)))"
  "ai_summary (newsEventPayload a c tr d) = summary_pt c"
  "ev_keywords (newsEventPayload a c tr d) = keywords_list c"
  "tension_delta (newsEventPayload a c tr d) = d"
  by (simp_all add: newsEventPayload_def)

text \<open>The step of an article that is not stored yet: by the answer of the store when both
  gateway answers are objects, and when one of them is \<open>null\<close>.\<close>

lemma processArticle_fresh:
  assumes "eventExists w (url a) = Inr False"
    and "classified w a = JsonObject c" and "translated w a = JsonObject tr"
  shows "processArticle w a t al =
     (case insertEvent w (payloadFor a c tr) of
        Inl err \<Rightarrow>
          (t, al, askedOf w a @ [InsertEvent (payloadFor a c tr),
                                 Log Err ''Article processing error''])
      | Inr (Inl insertError) \<Rightarrow>
          (t, al, askedOf w a @ [InsertEvent (payloadFor a c tr)] @
                  (if insertErrorCheck insertError then [Log Err ''Insert error''] else []))
      | Inr (Inr savedEvent) \<Rightarrow>
          (applyTensionDelta t (calculateTensionDelta (category c) (impact_score c) (title a)),
           (if ev_is_critical savedEvent \<or> num_le (Fin 8) (impact_score c)
            then al @ [\<lparr>ad_event = savedEvent, ad_score = impact_score c,
                           ad_summary = summary_pt c\<rparr>]
            else al),
           askedOf w a @ [InsertEvent (payloadFor a c tr), Log Info ''Event processed'',
                          Sleep 500]))"
  using assms by (simp add: processArticle_def Let_def case_prod_beta split: sum.splits)

lemma processArticle_null:
  assumes "eventExists w (url a) = Inr False"
    and "classified w a = JsonNull \<or> translated w a = JsonNull"
  shows "processArticle w a t al = (t, al, askedOf w a @ [Log Err ''Article processing error''])"
  using assms by (auto simp: processArticle_def Let_def case_prod_beta split: json.splits)

lemma processArticle_inserts:
  assumes "eventExists w (url a) = Inr False"
    and "classified w a = JsonObject c" and "translated w a = JsonObject tr"
  shows "insertedEvents (snd (snd (processArticle w a t al))) = [payloadFor a c tr]"
  by (simp add: processArticle_fresh [OF assms] insertedEvents_append
      classify_no_inserts translate_no_inserts split: sum.splits)

lemma processArticle_null_inserts:
  assumes "eventExists w (url a) = Inr False"
    and "classified w a = JsonNull \<or> translated w a = JsonNull"
  shows "insertedEvents (snd (snd (processArticle w a t al))) = []"
  by (simp add: processArticle_null [OF assms] insertedEvents_append
      classify_no_inserts translate_no_inserts)

lemma classified_cases:
  "classified w a =
     (case classifyResponse w (title a) (description a) of
        Inl err \<Rightarrow> JsonObject (fallbackClassification (title a))
      | Inr text \<Rightarrow>
          (case JSON_parse_classification w (trim (replaceFences (trim text))) of
             None \<Rightarrow> JsonObject (fallbackClassification (title a))
           | Some parsed \<Rightarrow> parsed))"
  by (simp add: classifyNewsEvent_def Let_def split: sum.splits option.splits)

lemma insertErrorCheck_False: "\<not> insertErrorCheck e"
  by (simp add: insertErrorCheck_def js_not_def)

lemma cycleStates_taken:
  assumes "\<not> isRunning s"
  shows "cycleStates w s =
     [s\<lparr>isRunning := True, trace := trace s @ [Log Info ''News cycle started'']\<rparr>,
      s\<lparr>isRunning := True,
        trace := trace s @ [Log Info ''News cycle started''] @ snd (tryBlock w)\<rparr>,
      s\<lparr>isRunning := True,
        trace := trace s @ [Log Info ''News cycle started''] @ snd (tryBlock w) @
                 (case fst (tryBlock w) of
                    Some err \<Rightarrow> [Log Err ''News cycle failed''] | None \<Rightarrow> [])\<rparr>,
      s\<lparr>isRunning := False,
        trace := trace s @ [Log Info ''News cycle started''] @ snd (tryBlock w) @
                 (case fst (tryBlock w) of
                    Some err \<Rightarrow> [Log Err ''News cycle failed''] | None \<Rightarrow> [])\<rparr>]"
  using assms by (simp add: cycleStates_def Let_def case_prod_beta split: option.splits)

subsection \<open>The concrete inputs, evaluated\<close>

lemma exampleWorld_simps:
  "fetchLatestNews (exampleWorld latest ts articles ca ta store) = Inr articles"
  "latestTension (exampleWorld latest ts articles ca ta store) = Inr latest"
  "eventExists (exampleWorld latest ts articles ca ta store) u = Inr False"
  "classifyResponse (exampleWorld latest ts articles ca ta store) ti d = ca"
  "JSON_parse_classification (exampleWorld latest ts articles ca ta store) = exampleParse"
  "translateResponse (exampleWorld latest ts articles ca ta store) ti = ta"
  "JSON_parse_translations (exampleWorld latest ts articles ca ta store)
     = exampleParseTranslations"
  "insertEvent (exampleWorld latest ts articles ca ta store) = store"
  "insertTension (exampleWorld latest ts articles ca ta store) v n = ts"
  "createAlert (exampleWorld latest ts articles ca ta store) i ti m sv c = Inr None"
  "selectProUsers (exampleWorld latest ts articles ca ta store) = Inr None"
  by (simp_all add: exampleWorld_def)

lemma clean_routineJson: "trim (replaceFences (trim routineJson)) = routineJson"
  by (simp add: routineJson_def str_def trim_def isWhiteSpace_def)

lemma clean_score15Fenced: "trim (replaceFences (trim score15Fenced)) = score15Json"
  by (simp add: score15Fenced_def score15Json_def str_def trim_def isWhiteSpace_def)

lemma clean_notJson: "trim (replaceFences (trim notJson)) = notJson"
  by (simp add: notJson_def str_def trim_def isWhiteSpace_def)

lemma clean_nullJson: "trim (replaceFences (trim nullJson)) = nullJson"
  by (simp add: nullJson_def str_def trim_def isWhiteSpace_def)

lemma exampleParse_simps:
  "exampleParse routineJson = Some (JsonObject routineClassification)"
  "exampleParse score15Json = Some (JsonObject score15Classification)"
  "exampleParse nullJson = Some JsonNull"
  "exampleParse notJson = None"
  by (simp_all add: exampleParse_def routineJson_def score15Json_def nullJson_def notJson_def
      str_def)

lemma exampleParseTranslations_simps:
  "exampleParseTranslations nullJson = Some JsonNull"
  by (simp add: exampleParseTranslations_def)

lemma echo_is_critical:
  "ev_is_critical (news_event.extend p (saved_event.fields i)) = ev_is_critical p"
  by (simp add: news_event.defs saved_event.defs)

lemma routine_title: "title routineArticle = str ''routine statement''"
  by (simp add: routineArticle_def)

lemma missile_title: "title missileArticle = str ''missile strike reported''"
  by (simp add: missileArticle_def)

lemma routine_no_alert_keyword:
  "\<not> some ALERT_KEYWORDS (\<lambda>kw. includes_js (alertText (withImpactScore routineArticle s)) kw)"
  by (simp add: withImpactScore_def routineArticle_def alertText_def ALERT_KEYWORDS_def
      keyword_eval)

lemma routine_no_alert: "\<not> shouldTriggerAlert (withImpactScore routineArticle (Fin 2))"
  by (simp add: shouldTriggerAlert_def routine_no_alert_keyword)
    (simp add: withImpactScore_def)

lemma missile_alert: "shouldTriggerAlert (withImpactScore missileArticle s)"
  by (simp add: shouldTriggerAlert_def withImpactScore_def missileArticle_def alertText_def
      ALERT_KEYWORDS_def keyword_eval)

lemma classify_routine:
  "classifyNewsEvent (exampleWorld latest ts articles (Inr routineJson) ta store) ti d =
     (JsonObject routineClassification, [MessagesCreateClassify ti d])"
  by (simp add: classifyNewsEvent_def exampleWorld_simps clean_routineJson exampleParse_simps)

lemma classify_score15:
  "classifyNewsEvent (exampleWorld latest ts articles (Inr score15Fenced) ta store) ti d =
     (JsonObject score15Classification, [MessagesCreateClassify ti d])"
  by (simp add: classifyNewsEvent_def exampleWorld_simps clean_score15Fenced
      exampleParse_simps)

lemma classify_notJson:
  "classifyNewsEvent (exampleWorld latest ts articles (Inr notJson) ta store) ti d =
     (JsonObject (fallbackClassification ti),
      [MessagesCreateClassify ti d, Log Err ''classifyNewsEvent parse error''])"
  by (simp add: classifyNewsEvent_def exampleWorld_simps clean_notJson exampleParse_simps)

lemma translate_timeout:
  "translateNewsTitle (exampleWorld latest ts articles ca timeout store) ti =
     (JsonObject \<lparr>pt = JString ti, es = JString ti, ar = JString ti, fa = JString ti\<rparr>,
      [MessagesCreateTranslate ti, Log Err ''translateNewsTitle error''])"
  by (simp add: translateNewsTitle_def exampleWorld_simps timeout_def)

lemma translate_null:
  "translateNewsTitle (exampleWorld latest ts articles ca (Inr nullJson) store) ti =
     (JsonNull, [MessagesCreateTranslate ti])"
  by (simp add: translateNewsTitle_def exampleWorld_simps clean_nullJson
      exampleParseTranslations_simps)

lemma routine_delta:
  "calculateTensionDelta (category routineClassification) (impact_score routineClassification)
     (title routineArticle) = lit (21 / 10)"
  by (simp only: routineClassification_def routine_title classification.simps delta_routine)

lemma score15_delta:
  "calculateTensionDelta (category score15Classification) (impact_score score15Classification)
     (title missileArticle) = lit (208 / 10)"
  by (simp only: score15Classification_def missile_title classification.simps
      delta_military_15)

lemma processArticle_routine:
  "processArticle (exampleWorld latest ts articles (Inr routineJson) timeout storeEcho)
     routineArticle (Fin 75) [] =
     (lit (7676 / 100), [],
      askedOf (exampleWorld latest ts articles (Inr routineJson) timeout storeEcho) routineArticle
        @ [InsertEvent (payloadFor routineArticle routineClassification
             \<lparr>pt = JString (title routineArticle), es = JString (title routineArticle),
              ar = JString (title routineArticle), fa = JString (title routineArticle)\<rparr>),
           Log Info ''Event processed'', Sleep 500])"
proof -
  let ?w = "exampleWorld latest ts articles (Inr routineJson) timeout storeEcho"
  have h1: "eventExists ?w (url routineArticle) = Inr False" by (simp add: exampleWorld_simps)
  have h2: "classified ?w routineArticle = JsonObject routineClassification"
    by (simp add: classify_routine)
  have h3: "translated ?w routineArticle =
      JsonObject \<lparr>pt = JString (title routineArticle), es = JString (title routineArticle),
                  ar = JString (title routineArticle), fa = JString (title routineArticle)\<rparr>"
    by (simp add: translate_timeout)
  have sc: "\<not> num_le (Fin 8) (impact_score routineClassification)"
    by (simp add: routineClassification_def)
  have cr: "\<not> is_critical routineClassification" by (simp add: routineClassification_def)
  have al: "\<not> shouldTriggerAlert (withImpactScore routineArticle
      (impact_score routineClassification))"
    using routine_no_alert by (simp add: routineClassification_def)
  show ?thesis
    unfolding processArticle_fresh [OF h1 h2 h3]
    by (simp add: exampleWorld_simps storeEcho_def echo_is_critical payload_fields sc cr al
        routine_delta apply_75_routine)
qed

lemma initialTension_75:
  "initialTension None = Fin 75" "initialTension (Some (Fin 0)) = Fin 75"
  "initialTension (Some NaN) = Fin 75"
  by (simp_all add: initialTension_def)

lemma tryBlock_empty:
  "tryBlock (exampleWorld latest ts [] ca ta store) =
     (None, [FetchLatestNews, Log Info ''No new articles found''])"
  by (simp add: tryBlock_def exampleWorld_simps)

lemma tryBlock_routine:
  "tryBlock (exampleWorld None None [routineArticle] (Inr routineJson) timeout storeEcho) =
     (None, [FetchLatestNews, SelectLatestTension]
            @ askedOf (exampleWorld None None [routineArticle] (Inr routineJson) timeout
                storeEcho) routineArticle
            @ [InsertEvent (payloadFor routineArticle routineClassification
                 \<lparr>pt = JString (title routineArticle), es = JString (title routineArticle),
                  ar = JString (title routineArticle), fa = JString (title routineArticle)\<rparr>),
               Log Info ''Event processed'', Sleep 500, InsertTension (lit (7676 / 100)) 1,
               Log Info ''Tension updated'', Log Info ''News cycle completed''])"
  by (simp add: tryBlock_def exampleWorld_simps initialTension_75 processArticle_routine Let_def)

lemma tryBlock_routine_throws:
  "tryBlock (exampleWorld None (Some (JsError ''network'')) [routineArticle] (Inr routineJson)
       timeout storeEcho) =
     (Some (JsError ''network''), [FetchLatestNews, SelectLatestTension]
            @ askedOf (exampleWorld None (Some (JsError ''network'')) [routineArticle]
                (Inr routineJson) timeout storeEcho) routineArticle
            @ [InsertEvent (payloadFor routineArticle routineClassification
                 \<lparr>pt = JString (title routineArticle), es = JString (title routineArticle),
                  ar = JString (title routineArticle), fa = JString (title routineArticle)\<rparr>),
               Log Info ''Event processed'', Sleep 500, InsertTension (lit (7676 / 100)) 1])"
  by (simp add: tryBlock_def exampleWorld_simps initialTension_75 processArticle_routine Let_def)

section \<open>Classification gateway and orchestrator: properties\<close>

text \<open>
  C1, as the code has it. For an article that is not stored yet, the impact score the
  pipeline uses is the one \<open>classifyNewsEvent\<close> returned, unchanged: it is the score of
  the row sent to the store and the score \<open>calculateTensionDelta\<close> is applied to. The
  classification is the gateway's parsed answer as it is, and the safe default, with
  score 3, when the gateway call or the parse fails; the pipeline neither rejects nor
  clamps the score. (When an answer is the JSON \<open>null\<close>, no row is sent.)
\<close>

theorem impact_score_used_unchanged:
  assumes "eventExists w (url a) = Inr False"
  shows "(classified w a = JsonObject c \<and> translated w a = JsonObject tr \<longrightarrow>
            insertedEvents (snd (snd (processArticle w a t al))) = [payloadFor a c tr]
            \<and> ev_impact_score (payloadFor a c tr) = impact_score c
            \<and> tension_delta (payloadFor a c tr) =
                calculateTensionDelta (category c) (impact_score c) (title a))
     \<and> (classified w a = JsonNull \<or> translated w a = JsonNull \<longrightarrow>
            insertedEvents (snd (snd (processArticle w a t al))) = [])
     \<and> classified w a =
         (case classifyResponse w (title a) (description a) of
            Inl err \<Rightarrow> JsonObject (fallbackClassification (title a))
          | Inr text \<Rightarrow>
              (case JSON_parse_classification w (trim (replaceFences (trim text))) of
                 None \<Rightarrow> JsonObject (fallbackClassification (title a))
               | Some parsed \<Rightarrow> parsed))
     \<and> impact_score (fallbackClassification (title a)) = Fin 3"
proof -
  have obj: "insertedEvents (snd (snd (processArticle w a t al))) = [payloadFor a c tr]"
    if "classified w a = JsonObject c" and "translated w a = JsonObject tr"
    using processArticle_inserts [OF assms that] .
  have null: "insertedEvents (snd (snd (processArticle w a t al))) = []"
    if "classified w a = JsonNull \<or> translated w a = JsonNull"
    using processArticle_null_inserts [OF assms that] .
  have fb: "impact_score (fallbackClassification (title a)) = Fin 3"
    by (simp add: fallbackClassification_def)
  show ?thesis
    using obj null fb classified_cases [of w a] by (simp add: payload_fields)
qed

theorem impact_score_used_unchanged_witness:
  "eventExists (exampleWorld None None [routineArticle] (Inr routineJson) timeout storeEcho)
      (url routineArticle) = Inr False
   \<and> classified (exampleWorld None None [routineArticle] (Inr routineJson) timeout storeEcho)
        routineArticle = JsonObject routineClassification
   \<and> map ev_impact_score (insertedEvents (snd (snd (processArticle
        (exampleWorld None None [routineArticle] (Inr routineJson) timeout storeEcho)
        routineArticle (Fin 75) [])))) = [Fin 2]
   \<and> map tension_delta (insertedEvents (snd (snd (processArticle
        (exampleWorld None None [routineArticle] (Inr routineJson) timeout storeEcho)
        routineArticle (Fin 75) [])))) = [lit (21 / 10)]"
proof -
  let ?w = "exampleWorld None None [routineArticle] (Inr routineJson) timeout storeEcho"
  let ?tr = "\<lparr>pt = JString (title routineArticle), es = JString (title routineArticle),
              ar = JString (title routineArticle), fa = JString (title routineArticle)\<rparr>"
  have h1: "eventExists ?w (url routineArticle) = Inr False" by (simp add: exampleWorld_simps)
  have h2: "classified ?w routineArticle = JsonObject routineClassification"
    by (simp add: classify_routine)
  have h3: "translated ?w routineArticle = JsonObject ?tr" by (simp add: translate_timeout)
  note th = impact_score_used_unchanged [OF h1, of routineClassification ?tr "Fin 75" "[]"]
  have ins: "insertedEvents (snd (snd (processArticle ?w routineArticle (Fin 75) []))) =
      [payloadFor routineArticle routineClassification ?tr]"
    using th h2 h3 by blast
  have sc: "impact_score routineClassification = Fin 2"
    by (simp add: routineClassification_def)
  have score: "map ev_impact_score
      (insertedEvents (snd (snd (processArticle ?w routineArticle (Fin 75) [])))) = [Fin 2]"
    by (simp add: ins payload_fields sc)
  have delta: "map tension_delta
      (insertedEvents (snd (snd (processArticle ?w routineArticle (Fin 75) [])))) =
      [lit (21 / 10)]"
    by (simp add: ins payload_fields routine_delta)
  show ?thesis
    using h1 h2 score delta by blast
qed

text \<open>
  C1 as stated fails: when the gateway answers with an impact score of 15, the row sent
  to the store carries 15 and a tension delta of 20.8, which is
  \<open>calculateTensionDelta\<close> at the score 15; nothing brought the score into [0,10]. (The
  store refuses the row here, with the code of a check violation.)
\<close>

theorem impact_score_out_of_range_counterexample:
  "map ev_impact_score (insertedEvents (snd (snd (processArticle
      (exampleWorld None None [missileArticle] (Inr score15Fenced) timeout
         (storeRefuses (JString (str ''23514''))))
      missileArticle (Fin 75) [])))) = [Fin 15]
   \<and> map tension_delta (insertedEvents (snd (snd (processArticle
      (exampleWorld None None [missileArticle] (Inr score15Fenced) timeout
         (storeRefuses (JString (str ''23514''))))
      missileArticle (Fin 75) [])))) = [lit (208 / 10)]
   \<and> calculateTensionDelta (str ''military'') (Fin 15) (title missileArticle) = lit (208 / 10)
   \<and> \<not> num_le (Fin 15) (Fin 10)"
proof -
  let ?w = "exampleWorld None None [missileArticle] (Inr score15Fenced) timeout
         (storeRefuses (JString (str ''23514'')))"
  let ?tr = "\<lparr>pt = JString (title missileArticle), es = JString (title missileArticle),
              ar = JString (title missileArticle), fa = JString (title missileArticle)\<rparr>"
  have h1: "eventExists ?w (url missileArticle) = Inr False" by (simp add: exampleWorld_simps)
  have h2: "classified ?w missileArticle = JsonObject score15Classification"
    by (simp add: classify_score15)
  have h3: "translated ?w missileArticle = JsonObject ?tr" by (simp add: translate_timeout)
  have sc: "impact_score score15Classification = Fin 15"
    by (simp add: score15Classification_def)
  note ins = processArticle_inserts [OF h1 h2 h3, of "Fin 75" "[]"]
  have score: "map ev_impact_score
      (insertedEvents (snd (snd (processArticle ?w missileArticle (Fin 75) [])))) = [Fin 15]"
    by (simp add: ins payload_fields sc)
  have delta: "map tension_delta
      (insertedEvents (snd (snd (processArticle ?w missileArticle (Fin 75) [])))) =
      [lit (208 / 10)]"
    by (simp add: ins payload_fields score15_delta)
  have calc: "calculateTensionDelta (str ''military'') (Fin 15) (title missileArticle) =
      lit (208 / 10)"
    using score15_delta by (simp add: score15Classification_def)
  have range: "\<not> num_le (Fin 15) (Fin 10)" by simp
  show ?thesis
    using score delta calc range by blast
qed

text \<open>
  C2. For every insert error \<open>e\<close>, the check \<open>!insertError.code === '23505'\<close> is false.
  So when the store answers an insert with an error, whatever its code, the step logs
  nothing after the insert and leaves the running tension and the queued alerts as they
  were.
\<close>

theorem insert_error_check_always_false:
  "\<not> insertErrorCheck e \<and>
   (eventExists w (url a) = Inr False \<longrightarrow>
    classified w a = JsonObject c \<longrightarrow> translated w a = JsonObject tr \<longrightarrow>
    insertEvent w (payloadFor a c tr) = Inr (Inl e) \<longrightarrow>
    processArticle w a t al = (t, al, askedOf w a @ [InsertEvent (payloadFor a c tr)]))"
  by (simp add: processArticle_fresh insertErrorCheck_False)

theorem insert_error_check_always_false_witness:
  "\<not> insertErrorCheck \<lparr>code = JString (str ''23505''), message = str ''refused''\<rparr>
   \<and> \<not> insertErrorCheck \<lparr>code = JUndefined, message = str ''refused''\<rparr>
   \<and> fst (processArticle
        (exampleWorld None None [routineArticle] (Inr routineJson) timeout
           (storeRefuses (JString (str ''23505''))))
        routineArticle (Fin 75) []) = Fin 75
   \<and> fst (snd (processArticle
        (exampleWorld None None [routineArticle] (Inr routineJson) timeout
           (storeRefuses (JString (str ''23505''))))
        routineArticle (Fin 75) [])) = []
   \<and> processArticle
        (exampleWorld None None [routineArticle] (Inr routineJson) timeout
           (storeRefuses (JString (str ''23505''))))
        routineArticle (Fin 75) []
     = processArticle
        (exampleWorld None None [routineArticle] (Inr routineJson) timeout
           (storeRefuses JUndefined))
        routineArticle (Fin 75) []"
proof -
  let ?tr = "\<lparr>pt = JString (title routineArticle), es = JString (title routineArticle),
              ar = JString (title routineArticle), fa = JString (title routineArticle)\<rparr>"
  note dup = insert_error_check_always_false
      [of "\<lparr>code = JString (str ''23505''), message = str ''refused''\<rparr>"
      "exampleWorld None None [routineArticle] (Inr routineJson) timeout
         (storeRefuses (JString (str ''23505'')))"
      routineArticle routineClassification ?tr "Fin 75" "[]"]
  note other = insert_error_check_always_false
      [of "\<lparr>code = JUndefined, message = str ''refused''\<rparr>"
      "exampleWorld None None [routineArticle] (Inr routineJson) timeout
         (storeRefuses JUndefined)"
      routineArticle routineClassification ?tr "Fin 75" "[]"]
  show ?thesis
    using dup other
    by (simp add: exampleWorld_simps storeRefuses_def classify_routine translate_timeout)
qed

text \<open>
  C3. When \<open>runNewsCycle\<close> is invoked while the guard flag is set, it logs one warning and
  returns: no fetch, no classification, no write to the store and no alert is performed,
  and the flag stays as it was.
\<close>

theorem single_flight_skip:
  assumes "isRunning s"
  shows "runNewsCycle w s =
           s\<lparr>trace := trace s @ [Log Warn ''News cron already running - skipping'']\<rparr>"
  using assms by (simp add: runNewsCycle_def cycleStates_def)

theorem single_flight_skip_witness:
  "isRunning running \<and>
   runNewsCycle (exampleWorld None None [routineArticle] (Inr routineJson) timeout storeEcho)
      running =
     \<lparr>isRunning = True, trace = [Log Warn ''News cron already running - skipping'']\<rparr>"
  using single_flight_skip
    [of running "exampleWorld None None [routineArticle] (Inr routineJson) timeout storeEcho"]
  by (simp add: running_def)

text \<open>
  C4. An invocation of \<open>runNewsCycle\<close> that finds the guard free takes it and gives it
  back on every exit path: the flag is set in every state before the exit, so while the
  \<open>try\<close> block runs and after it was left, normally, by the early return for an empty
  batch or by an exception, and the flag is reset in the state the invocation returns
  in, whose trace is that of the \<open>try\<close> block, followed by the failure line when an
  exception left it.
\<close>

theorem guard_released_on_every_exit:
  assumes "\<not> isRunning s"
  shows "length (cycleStates w s) = 4
     \<and> list_all isRunning (butlast (cycleStates w s))
     \<and> \<not> isRunning (runNewsCycle w s)
     \<and> runNewsCycle w s =
         \<lparr>isRunning = False,
          trace = trace s @ [Log Info ''News cycle started''] @ snd (tryBlock w) @
                  (case fst (tryBlock w) of
                     Some err \<Rightarrow> [Log Err ''News cycle failed''] | None \<Rightarrow> [])\<rparr>"
  by (simp add: runNewsCycle_def cycleStates_taken [OF assms])

theorem guard_released_on_every_exit_witness:
  "\<not> isRunning idle
   \<and> map isRunning (cycleStates (exampleWorld None None [] (Inr notJson) timeout storeEcho) idle)
       = [True, True, True, False]
   \<and> trace (runNewsCycle (exampleWorld None None [] (Inr notJson) timeout storeEcho) idle) =
       [Log Info ''News cycle started'', FetchLatestNews, Log Info ''No new articles found'']
   \<and> map isRunning (cycleStates
         (exampleWorld None None [routineArticle] (Inr routineJson) timeout storeEcho) idle)
       = [True, True, True, False]
   \<and> last (trace (runNewsCycle
         (exampleWorld None None [routineArticle] (Inr routineJson) timeout storeEcho) idle)) =
       Log Info ''News cycle completed''
   \<and> map isRunning (cycleStates
         (exampleWorld None (Some (JsError ''network'')) [routineArticle] (Inr routineJson)
            timeout storeEcho) idle)
       = [True, True, True, False]
   \<and> last (trace (runNewsCycle
         (exampleWorld None (Some (JsError ''network'')) [routineArticle] (Inr routineJson)
            timeout storeEcho) idle)) =
       Log Err ''News cycle failed''"
proof -
  have i: "\<not> isRunning idle" by (simp add: idle_def)
  show ?thesis
    using guard_released_on_every_exit
        [OF i, of "exampleWorld None None [] (Inr notJson) timeout storeEcho"]
      guard_released_on_every_exit
        [OF i, of "exampleWorld None None [routineArticle] (Inr routineJson) timeout storeEcho"]
      guard_released_on_every_exit
        [OF i, of "exampleWorld None (Some (JsError ''network'')) [routineArticle]
           (Inr routineJson) timeout storeEcho"]
    by (simp add: i idle_def cycleStates_taken tryBlock_empty tryBlock_routine
        tryBlock_routine_throws)
qed

text \<open>
  C5. For an article whose insert succeeded, the store returning the \<open>is_critical\<close> it
  was given, the event is queued for alerting exactly when the classification's
  \<open>is_critical\<close> is true, or \<open>shouldTriggerAlert\<close> holds for the article with its impact
  score, or the impact score is at least 8.
\<close>

theorem alert_queued_iff_three_way:
  assumes "eventExists w (url a) = Inr False"
    and "classified w a = JsonObject c" and "translated w a = JsonObject tr"
    and "insertEvent w (payloadFor a c tr) = Inr (Inr saved)"
    and "ev_is_critical saved = ev_is_critical (payloadFor a c tr)"
  shows "fst (snd (processArticle w a t al)) =
     (if is_critical c
         \<or> shouldTriggerAlert (withImpactScore a (impact_score c))
         \<or> num_le (Fin 8) (impact_score c)
      then al @ [\<lparr>ad_event = saved, ad_score = impact_score c, ad_summary = summary_pt c\<rparr>]
      else al)"
  using assms(4,5) by (simp add: processArticle_fresh [OF assms(1-3)] payload_fields)

theorem alert_queued_iff_three_way_witness:
  "shouldTriggerAlert (withImpactScore missileArticle (Fin 2)) \<and>
   map ad_score (fst (snd (processArticle
      (exampleWorld None None [missileArticle] (Inr routineJson) timeout storeEcho)
      missileArticle (Fin 75) []))) = [Fin 2] \<and>
   \<not> shouldTriggerAlert (withImpactScore routineArticle (Fin 2)) \<and>
   fst (snd (processArticle
      (exampleWorld None None [routineArticle] (Inr routineJson) timeout storeEcho)
      routineArticle (Fin 75) [])) = []"
proof -
  let ?wm = "exampleWorld None None [missileArticle] (Inr routineJson) timeout storeEcho"
  let ?wr = "exampleWorld None None [routineArticle] (Inr routineJson) timeout storeEcho"
  let ?tm = "\<lparr>pt = JString (title missileArticle), es = JString (title missileArticle),
              ar = JString (title missileArticle), fa = JString (title missileArticle)\<rparr>"
  let ?tr = "\<lparr>pt = JString (title routineArticle), es = JString (title routineArticle),
              ar = JString (title routineArticle), fa = JString (title routineArticle)\<rparr>"
  let ?sm = "news_event.extend (payloadFor missileArticle routineClassification ?tm)
               (saved_event.fields (str ''id-1''))"
  let ?sr = "news_event.extend (payloadFor routineArticle routineClassification ?tr)
               (saved_event.fields (str ''id-1''))"
  have sc: "impact_score routineClassification = Fin 2"
    by (simp add: routineClassification_def)
  have cr: "\<not> is_critical routineClassification" by (simp add: routineClassification_def)
  have m: "fst (snd (processArticle ?wm missileArticle (Fin 75) [])) =
      [\<lparr>ad_event = ?sm, ad_score = Fin 2, ad_summary = summary_pt routineClassification\<rparr>]"
    using alert_queued_iff_three_way
        [of ?wm missileArticle routineClassification ?tm ?sm "Fin 75" "[]"]
    by (simp add: exampleWorld_simps storeEcho_def echo_is_critical classify_routine
        translate_timeout sc missile_alert)
  have r: "fst (snd (processArticle ?wr routineArticle (Fin 75) [])) = []"
    using alert_queued_iff_three_way
        [of ?wr routineArticle routineClassification ?tr ?sr "Fin 75" "[]"]
    by (simp add: exampleWorld_simps storeEcho_def echo_is_critical classify_routine
        translate_timeout sc cr routine_no_alert)
  show ?thesis using missile_alert routine_no_alert by (simp add: m r)
qed

text \<open>
  C9, as the code has it. When the gateway's answer, once its code fences are stripped,
  fails to parse as JSON, \<open>classifyNewsEvent\<close> does not raise and returns the safe
  default: category \<open>other\<close>, impact score 3, not critical, no keywords, both summaries
  the first 100 code units of the title. When the translation step yields an object, the
  row then sent to the store has category \<open>other\<close>, impact score 3, that summary and no
  keywords; its \<open>is_critical\<close> is true exactly when the lower-cased title and description
  contain an alert keyword. When the translation answer is the JSON \<open>null\<close>, reading
  \<open>translations.pt\<close> throws: the step logs the error and sends no row.
\<close>

theorem parse_failure_safe_default:
  assumes "eventExists w (url a) = Inr False"
    and "classifyResponse w (title a) (description a) = Inr text"
    and "JSON_parse_classification w (trim (replaceFences (trim text))) = None"
  shows "classified w a =
           JsonObject \<lparr>category = str ''other'', impact_score = Fin 3, is_critical = False,
                       summary_pt = take 100 (title a), summary_en = take 100 (title a),
                       keywords_list = []\<rparr>
     \<and> (translated w a = JsonObject tr \<longrightarrow>
          insertedEvents (snd (snd (processArticle w a t al))) =
            [payloadFor a (fallbackClassification (title a)) tr]
          \<and> ev_category (payloadFor a (fallbackClassification (title a)) tr) = str ''other''
          \<and> ev_impact_score (payloadFor a (fallbackClassification (title a)) tr) = Fin 3
          \<and> ai_summary (payloadFor a (fallbackClassification (title a)) tr) = take 100 (title a)
          \<and> ev_keywords (payloadFor a (fallbackClassification (title a)) tr) = []
          \<and> ev_is_critical (payloadFor a (fallbackClassification (title a)) tr) =
              some ALERT_KEYWORDS
                (\<lambda>kw. includes_js (alertText (withImpactScore a (Fin 3))) kw))
     \<and> (translated w a = JsonNull \<longrightarrow>
          processArticle w a t al =
            (t, al, askedOf w a @ [Log Err ''Article processing error''])
          \<and> insertedEvents (snd (snd (processArticle w a t al))) = [])"
proof -
  have c: "classified w a = JsonObject (fallbackClassification (title a))"
    using assms(2,3) by (simp add: classified_cases)
  have obj: "insertedEvents (snd (snd (processArticle w a t al))) =
      [payloadFor a (fallbackClassification (title a)) tr]"
    if "translated w a = JsonObject tr"
    using processArticle_inserts [OF assms(1) c that] .
  have null: "processArticle w a t al =
      (t, al, askedOf w a @ [Log Err ''Article processing error''])"
    "insertedEvents (snd (snd (processArticle w a t al))) = []"
    if "translated w a = JsonNull"
    using processArticle_null [OF assms(1), of t al]
      processArticle_null_inserts [OF assms(1), of t al] that by simp_all
  have fields:
    "ev_category (payloadFor a (fallbackClassification (title a)) tr) = str ''other''"
    "ev_impact_score (payloadFor a (fallbackClassification (title a)) tr) = Fin 3"
    "ai_summary (payloadFor a (fallbackClassification (title a)) tr) = take 100 (title a)"
    "ev_keywords (payloadFor a (fallbackClassification (title a)) tr) = []"
    "ev_is_critical (payloadFor a (fallbackClassification (title a)) tr) =
      some ALERT_KEYWORDS (\<lambda>kw. includes_js (alertText (withImpactScore a (Fin 3))) kw)"
    by (simp_all add: payload_fields fallbackClassification_def shouldTriggerAlert_def
        withImpactScore_def)
  have c': "classified w a =
      JsonObject \<lparr>category = str ''other'', impact_score = Fin 3, is_critical = False,
                  summary_pt = take 100 (title a), summary_en = take 100 (title a),
                  keywords_list = []\<rparr>"
    using c by (simp add: fallbackClassification_def)
  show ?thesis
    using c' obj null fields by blast
qed

theorem parse_failure_safe_default_witness:
  "eventExists (exampleWorld None None [routineArticle] (Inr notJson) timeout storeEcho)
      (url routineArticle) = Inr False
   \<and> JSON_parse_classification
        (exampleWorld None None [routineArticle] (Inr notJson) timeout storeEcho)
        (trim (replaceFences (trim notJson))) = None
   \<and> classified (exampleWorld None None [routineArticle] (Inr notJson) timeout storeEcho)
        routineArticle =
      JsonObject \<lparr>category = str ''other'', impact_score = Fin 3, is_critical = False,
                  summary_pt = str ''routine statement'',
                  summary_en = str ''routine statement'', keywords_list = []\<rparr>
   \<and> map ev_category (insertedEvents (snd (snd (processArticle
        (exampleWorld None None [routineArticle] (Inr notJson) timeout storeEcho)
        routineArticle (Fin 75) [])))) = [str ''other'']
   \<and> map ev_impact_score (insertedEvents (snd (snd (processArticle
        (exampleWorld None None [routineArticle] (Inr notJson) timeout storeEcho)
        routineArticle (Fin 75) [])))) = [Fin 3]
   \<and> map ev_is_critical (insertedEvents (snd (snd (processArticle
        (exampleWorld None None [routineArticle] (Inr notJson) timeout storeEcho)
        routineArticle (Fin 75) [])))) = [False]
   \<and> translated
        (exampleWorld None None [routineArticle] (Inr notJson) (Inr nullJson) storeEcho)
        routineArticle = JsonNull
   \<and> insertedEvents (snd (snd (processArticle
        (exampleWorld None None [routineArticle] (Inr notJson) (Inr nullJson) storeEcho)
        routineArticle (Fin 75) []))) = []"
proof -
  let ?w = "exampleWorld None None [routineArticle] (Inr notJson) timeout storeEcho"
  let ?n = "exampleWorld None None [routineArticle] (Inr notJson) (Inr nullJson) storeEcho"
  let ?tr = "\<lparr>pt = JString (title routineArticle), es = JString (title routineArticle),
              ar = JString (title routineArticle), fa = JString (title routineArticle)\<rparr>"
  have h1: "eventExists ?w (url routineArticle) = Inr False"
    and n1: "eventExists ?n (url routineArticle) = Inr False"
    by (simp_all add: exampleWorld_simps)
  have h2: "classifyResponse ?w (title routineArticle) (description routineArticle) =
      Inr notJson"
    and n2: "classifyResponse ?n (title routineArticle) (description routineArticle) =
      Inr notJson"
    by (simp_all add: exampleWorld_simps)
  have h3: "JSON_parse_classification ?w (trim (replaceFences (trim notJson))) = None"
    and n3: "JSON_parse_classification ?n (trim (replaceFences (trim notJson))) = None"
    by (simp_all add: exampleWorld_simps clean_notJson exampleParse_simps)
  have h4: "translated ?w routineArticle = JsonObject ?tr" by (simp add: translate_timeout)
  have n4: "translated ?n routineArticle = JsonNull" by (simp add: translate_null)
  note th = parse_failure_safe_default [OF h1 h2 h3, of ?tr "Fin 75" "[]"]
  note tn = parse_failure_safe_default [OF n1 n2 n3, of ?tr "Fin 75" "[]"]
  have c: "classified ?w routineArticle =
      JsonObject \<lparr>category = str ''other'', impact_score = Fin 3, is_critical = False,
                  summary_pt = str ''routine statement'',
                  summary_en = str ''routine statement'', keywords_list = []\<rparr>"
    using th by (simp add: routine_title str_def)
  have ins: "insertedEvents (snd (snd (processArticle ?w routineArticle (Fin 75) []))) =
      [payloadFor routineArticle (fallbackClassification (title routineArticle)) ?tr]"
    using th h4 by blast
  have cat: "ev_category
      (payloadFor routineArticle (fallbackClassification (title routineArticle)) ?tr) =
      str ''other''"
    using th h4 by blast
  have sc: "ev_impact_score
      (payloadFor routineArticle (fallbackClassification (title routineArticle)) ?tr) = Fin 3"
    using th h4 by blast
  have "ev_is_critical
      (payloadFor routineArticle (fallbackClassification (title routineArticle)) ?tr) =
      some ALERT_KEYWORDS
        (\<lambda>kw. includes_js (alertText (withImpactScore routineArticle (Fin 3))) kw)"
    using th h4 by blast
  then have cr: "\<not> ev_is_critical
      (payloadFor routineArticle (fallbackClassification (title routineArticle)) ?tr)"
    using routine_no_alert_keyword [of "Fin 3"] by simp
  have none: "insertedEvents (snd (snd (processArticle ?n routineArticle (Fin 75) []))) = []"
    using tn n4 by blast
  show ?thesis
    using h1 h3 c n4 none by (simp add: ins cat sc cr)
qed

text \<open>
  C9 as stated fails: for the article titled \<open>missile strike reported\<close> and a gateway
  answer that does not parse, the row sent to the store has category \<open>other\<close> and
  impact score 3, but its \<open>is_critical\<close> is true, since the title contains an alert
  keyword.
\<close>

theorem parse_failure_is_critical_counterexample:
  "JSON_parse_classification
      (exampleWorld None None [missileArticle] (Inr notJson) timeout storeEcho)
      (trim (replaceFences (trim notJson))) = None
   \<and> map ev_category (insertedEvents (snd (snd (processArticle
        (exampleWorld None None [missileArticle] (Inr notJson) timeout storeEcho)
        missileArticle (Fin 75) [])))) = [str ''other'']
   \<and> map ev_impact_score (insertedEvents (snd (snd (processArticle
        (exampleWorld None None [missileArticle] (Inr notJson) timeout storeEcho)
        missileArticle (Fin 75) [])))) = [Fin 3]
   \<and> map ev_is_critical (insertedEvents (snd (snd (processArticle
        (exampleWorld None None [missileArticle] (Inr notJson) timeout storeEcho)
        missileArticle (Fin 75) [])))) = [True]"
proof -
  let ?w = "exampleWorld None None [missileArticle] (Inr notJson) timeout storeEcho"
  let ?tr = "\<lparr>pt = JString (title missileArticle), es = JString (title missileArticle),
              ar = JString (title missileArticle), fa = JString (title missileArticle)\<rparr>"
  have h1: "eventExists ?w (url missileArticle) = Inr False" by (simp add: exampleWorld_simps)
  have h2: "classified ?w missileArticle =
      JsonObject (fallbackClassification (title missileArticle))"
    by (simp add: classify_notJson)
  have h3: "translated ?w missileArticle = JsonObject ?tr" by (simp add: translate_timeout)
  have p: "JSON_parse_classification ?w (trim (replaceFences (trim notJson))) = None"
    by (simp add: exampleWorld_simps clean_notJson exampleParse_simps)
  note ins = processArticle_inserts [OF h1 h2 h3, of "Fin 75" "[]"]
  have fb: "impact_score (fallbackClassification (title missileArticle)) = Fin 3"
    "category (fallbackClassification (title missileArticle)) = str ''other''"
    by (simp_all add: fallbackClassification_def)
  show ?thesis
    using p by (simp add: ins payload_fields fb missile_alert)
qed

text \<open>
  C10. When the store has no tension sample, or the latest sample's value is falsy (0 or
  \<open>NaN\<close>), a cycle with at least one article starts its accumulation at 75 (not at the
  baseline 60): the one value it sends to \<open>tension_history\<close> is the result of the article
  loop started at 75.
\<close>

theorem tension_starts_at_75:
  assumes "fetchLatestNews w = Inr articles" and "articles \<noteq> []"
    and "latestTension w = Inr latest"
    and "latest = None \<or> latest = Some (Fin 0) \<or> latest = Some NaN"
  shows "initialTension latest = Fin 75 \<and> initialTension latest \<noteq> Fin 60 \<and>
         insertedTensions (snd (tryBlock w)) = [fst (processArticles w articles (Fin 75) [])]"
proof -
  have init: "initialTension latest = Fin 75"
    using assms(4) by (auto simp: initialTension_def)
  obtain t al acts where pa: "processArticles w articles (Fin 75) [] = (t, al, acts)"
    by (cases "processArticles w articles (Fin 75) []") auto
  have acts: "insertedTensions acts = []"
    using processArticles_no_tension_insert [of w articles "Fin 75" "[]"] by (simp add: pa)
  have "insertedTensions (snd (tryBlock w)) = [t]"
    using assms(1-3) init pa acts
    by (simp add: tryBlock_def Let_def insertedTensions_append alerts_no_tension_insert
        split: option.splits)
  then show ?thesis using init pa by simp
qed

theorem tension_starts_at_75_witness:
  "latestTension (exampleWorld None None [routineArticle] (Inr routineJson) timeout storeEcho)
      = Inr None
   \<and> initialTension None = Fin 75
   \<and> insertedTensions (snd (tryBlock
        (exampleWorld None None [routineArticle] (Inr routineJson) timeout storeEcho))) =
      [lit (7676 / 100)]
   \<and> latestTension
        (exampleWorld (Some (Fin 0)) None [routineArticle] (Inr routineJson) timeout storeEcho)
      = Inr (Some (Fin 0))
   \<and> initialTension (Some (Fin 0)) = Fin 75
   \<and> insertedTensions (snd (tryBlock
        (exampleWorld (Some (Fin 0)) None [routineArticle] (Inr routineJson) timeout
           storeEcho))) =
      [lit (7676 / 100)]"
  using tension_starts_at_75
      [of "exampleWorld None None [routineArticle] (Inr routineJson) timeout storeEcho"
        "[routineArticle]" None]
    tension_starts_at_75
      [of "exampleWorld (Some (Fin 0)) None [routineArticle] (Inr routineJson) timeout storeEcho"
        "[routineArticle]" "Some (Fin 0)"]
  by (simp add: exampleWorld_simps processArticle_routine)

end
